theory Spec2Isabelle
  imports Complex_Main
begin

section \<open>GNSS satellite state models (gnss\_lib\_py/utils/sv\_models.py)\<close>

text \<open>
  The numpy code computes with IEEE doubles; the embedding computes with \<^typ>\<open>real\<close>.
  A numpy array with one entry per satellite is a list, an elementwise operation is a
  \<open>map\<close> over the (zipped) lists, and a \<open>NavData\<close> table is a list of records, one
  record per column (satellite). An exception is a value \<open>Inl err\<close>.
  Division is the division of \<^typ>\<open>real\<close>: it agrees with numpy wherever the divisor
  is not zero, which for the Kepler solver holds for every eccentricity in \<open>[0,1)\<close>.
\<close>

datatype error =
    AssertionError
  | TypeError
  | ValueError
  | IndexError
  | NameError
  | AttributeError
  | RuntimeWarning
  | InvalidReference

text \<open>
  \<open>gnss_lib_py.utils.constants\<close>: the module is imported by the source but is not part
  of the files at hand, so the four constants used are parameters of the model.
\<close>

record constants =
  MU_EARTH :: real
  OMEGA_E_DOT :: real
  C :: real
  T_TRANS :: real

text \<open>One column of the ephemeris \<open>NavData\<close>; \<open>ecc\<close> is the row with key \<open>'e'\<close>.\<close>

record ephemeris =
  eph_sv_id :: nat
  gps_week :: int
  t_oe :: real
  sqrtA :: real
  ecc :: real
  M_0 :: real
  deltaN :: real
  omega :: real
  Omega_0 :: real
  OmegaDot :: real
  i_0 :: real
  IDOT :: real
  C_is :: real
  C_ic :: real
  C_rs :: real
  C_rc :: real
  C_uc :: real
  C_us :: real

subsection \<open>The eccentric-anomaly solver\<close>

text \<open>\<open>gpsweek_diff = (np.mod(gps_week,1024) - np.mod(ephem['gps_week'],1024))*604800.\<close>\<close>

definition gpsweek_diff :: "int \<Rightarrow> ephemeris \<Rightarrow> real" where
  "gpsweek_diff week eph =
     real_of_int (week mod 1024 - gps_week eph mod 1024) * 604800"

text \<open>\<open>delta_t = gps_tow - ephem['t_oe'] + gpsweek_diff\<close>\<close>

definition delta_t :: "int \<Rightarrow> real \<Rightarrow> ephemeris \<Rightarrow> real" where
  "delta_t week tow eph = tow - t_oe eph + gpsweek_diff week eph"

text \<open>\<open>sqrt_mu_a = np.sqrt(consts.MU_EARTH) * sqrt_sma**-3\<close>\<close>

definition sqrt_mu_a :: "constants \<Rightarrow> ephemeris \<Rightarrow> real" where
  "sqrt_mu_a cs eph = sqrt (MU_EARTH cs) * (1 / sqrtA eph ^ 3)"

text \<open>
  \<open>mean_anom_corr = delta_n * delta_t\<close>,
  \<open>mean_anom = mean_anom_0 + (sqrt_mu_a * delta_t) + mean_anom_corr\<close>
\<close>

definition mean_anom :: "constants \<Rightarrow> int \<Rightarrow> real \<Rightarrow> ephemeris \<Rightarrow> real" where
  "mean_anom cs week tow eph =
     (let mean_anom_corr = deltaN eph * delta_t week tow eph
      in M_0 eph + (sqrt_mu_a cs eph * delta_t week tow eph) + mean_anom_corr)"

text \<open>
  The loop \<open>for _ in np.arange(0, max_iter)\<close> over the arrays. The last argument is the
  variable \<open>delta_ecc_anom\<close>, unbound (\<open>None\<close>) until the body has run once.
\<close>

fun newton_loop ::
  "nat \<Rightarrow> real list \<Rightarrow> real list \<Rightarrow> real list \<Rightarrow> real list option
     \<Rightarrow> real list \<times> real list option" where
  "newton_loop 0 mean_anoms eccs ecc_anom delta_ecc_anom = (ecc_anom, delta_ecc_anom)"
| "newton_loop (Suc n) mean_anoms eccs ecc_anom delta_ecc_anom =
     (let fun_val = map2 (\<lambda>m (e, E). m - E + e * sin E) mean_anoms (zip eccs ecc_anom);
          df_decc_anom = map2 (\<lambda>e E. e * cos E - 1) eccs ecc_anom;
          delta_ecc_anom' = map2 (\<lambda>f d. - f / d) fun_val df_decc_anom;
          ecc_anom' = map2 (\<lambda>E d. E + d) ecc_anom delta_ecc_anom'
      in newton_loop n mean_anoms eccs ecc_anom' (Some delta_ecc_anom'))"

text \<open>
  \<open>_compute_eccentric_anomaly(gps_week, gps_tow, ephem, tol=1e-5, max_iter=10)\<close>.
  \<open>gps_week\<close> and \<open>gps_tow\<close> are the arrays after broadcasting, one entry per satellite.
  With \<open>max_iter \<le> 0\<close> the loop body never runs and reading \<open>delta_ecc_anom\<close> fails.
\<close>

definition compute_eccentric_anomaly ::
  "constants \<Rightarrow> int list \<Rightarrow> real list \<Rightarrow> ephemeris list \<Rightarrow> real \<Rightarrow> int \<Rightarrow> error + real list" where
  "compute_eccentric_anomaly cs weeks tows ephem tol max_iter =
     (let mean_anoms = map2 (\<lambda>(w, t) eph. mean_anom cs w t eph) (zip weeks tows) ephem;
          eccs = map ecc ephem;
          (ecc_anom, delta_ecc_anom) = newton_loop (nat max_iter) mean_anoms eccs mean_anoms None
      in case delta_ecc_anom of
           None \<Rightarrow> Inl NameError
         | Some d \<Rightarrow>
             if list_ex (\<lambda>x. x > tol) d then Inl RuntimeWarning
             else Inr ecc_anom)"

definition default_tol :: real where
  "default_tol = 1 / 100000"

definition default_max_iter :: int where
  "default_max_iter = 10"

text \<open>
  The Newton-Raphson step in the words of the specification:
  \<open>E \<leftarrow> E \<minus> f(E)/f'(E)\<close> with \<open>f(E) = M \<minus> E + e\<cdot>sin(E)\<close> and \<open>f'(E) = e\<cdot>cos(E) \<minus> 1\<close>.
\<close>

definition kepler_f :: "real \<Rightarrow> real \<Rightarrow> real \<Rightarrow> real" where
  "kepler_f M e E = M - E + e * sin E"

definition kepler_f' :: "real \<Rightarrow> real \<Rightarrow> real" where
  "kepler_f' e E = e * cos E - 1"

definition spec_newton_step :: "real \<Rightarrow> real \<Rightarrow> real \<Rightarrow> real" where
  "spec_newton_step M e E = E - kepler_f M e E / kepler_f' e E"

text \<open>The correction \<open>delta_ecc_anom = -fun / df_decc_anom\<close> of one step, same notation.\<close>

definition spec_newton_delta :: "real \<Rightarrow> real \<Rightarrow> real \<Rightarrow> real" where
  "spec_newton_delta M e E = - kepler_f M e E / kepler_f' e E"

text \<open>
  For one satellite (its week, time of week and ephemeris column): the iterate after
  \<open>n\<close> Newton-Raphson steps from \<open>E = M\<close>, and the correction applied by step \<open>n\<close>.
\<close>

definition kepler_iterate :: "constants \<Rightarrow> nat \<Rightarrow> (int \<times> real) \<times> ephemeris \<Rightarrow> real" where
  "kepler_iterate cs n = (\<lambda>((w, t), eph).
     (spec_newton_step (mean_anom cs w t eph) (ecc eph) ^^ n) (mean_anom cs w t eph))"

definition last_correction :: "constants \<Rightarrow> nat \<Rightarrow> (int \<times> real) \<times> ephemeris \<Rightarrow> real" where
  "last_correction cs n = (\<lambda>((w, t), eph).
     spec_newton_delta (mean_anom cs w t eph) (ecc eph) (kepler_iterate cs (n - 1) ((w, t), eph)))"

subsection \<open>Orbit propagation: \<open>find_sv_states\<close>\<close>

text \<open>One column of the \<open>NavData\<close> of satellite positions and velocities.\<close>

record sv_state =
  sv_id :: nat
  times :: real
  x_sv_m :: real
  y_sv_m :: real
  z_sv_m :: real
  vx_sv_mps :: real
  vy_sv_mps :: real
  vz_sv_mps :: real

text \<open>
  \<open>np.arctan2\<close> on finite doubles, without the sign of zero: the angle of the point
  \<open>(x, y)\<close> in \<open>(-\<pi>, \<pi>]\<close>.
\<close>

definition arctan2 :: "real \<Rightarrow> real \<Rightarrow> real" where
  "arctan2 y x =
     (if 0 < x then arctan (y / x)
      else if x < 0 then (if 0 \<le> y then arctan (y / x) + pi else arctan (y / x) - pi)
      else if 0 < y then pi / 2
      else if y < 0 then - (pi / 2)
      else 0)"

text \<open>Lines 135 to 142: the true anomaly from the eccentric anomaly.\<close>

definition nu_rad :: "real \<Rightarrow> real \<Rightarrow> real" where
  "nu_rad e ecc_anom =
     (let cos_e = cos ecc_anom;
          sin_e = sin ecc_anom;
          e_cos_e = 1 - e * cos_e;
          sin_nu = sqrt (1 - e\<^sup>2) * (sin_e / e_cos_e);
          cos_nu = (cos_e - e) / e_cos_e
      in arctan2 sin_nu cos_nu)"

text \<open>
  Lines 146 to 151: \<open>for incl in range(5)\<close>. The state is \<open>phi\<close> and the pair
  \<open>(cos_to_phi, sin_to_phi)\<close>, which is unbound before the first pass and is read
  again after the loop.
\<close>

fun phi_loop ::
  "nat \<Rightarrow> real \<Rightarrow> real \<Rightarrow> real \<Rightarrow> real \<Rightarrow> (real \<times> real) option
     \<Rightarrow> real \<times> (real \<times> real) option" where
  "phi_loop 0 phi_0 c_uc c_us phi trig = (phi, trig)"
| "phi_loop (Suc n) phi_0 c_uc c_us phi trig =
     (let cos_to_phi = cos (2 * phi);
          sin_to_phi = sin (2 * phi);
          phi_corr = c_uc * cos_to_phi + c_us * sin_to_phi;
          phi' = phi_0 + phi_corr
      in phi_loop n phi_0 c_uc c_us phi' (Some (cos_to_phi, sin_to_phi)))"

text \<open>The update of the specification: \<open>phi := phi_0 + C_uc\<cdot>cos(2\<cdot>phi_prev) + C_us\<cdot>sin(2\<cdot>phi_prev)\<close>.\<close>

definition spec_phi_step :: "real \<Rightarrow> real \<Rightarrow> real \<Rightarrow> real \<Rightarrow> real" where
  "spec_phi_step phi_0 c_uc c_us phi_prev =
     phi_0 + c_uc * cos (2 * phi_prev) + c_us * sin (2 * phi_prev)"

text \<open>
  Lines 145 to 151 for one satellite: the argument of latitude after the loop, with
  the pair of the last pass.
\<close>

definition arg_of_latitude :: "ephemeris \<Rightarrow> real \<Rightarrow> real \<times> (real \<times> real) option" where
  "arg_of_latitude eph ecc_anom =
     (let phi_0 = nu_rad (ecc eph) ecc_anom + omega eph;
          phi = phi_0
      in phi_loop 5 phi_0 (C_uc eph) (C_us eph) phi None)"

text \<open>
  Lines 154 and 161: \<open>omega_corr = ephem['OmegaDot'] * delta_t\<close> and
  \<open>omega = omega_0 - (consts.OMEGA_E_DOT*(gps_tow + gpsweek_diff)) + omega_corr\<close>.
\<close>

definition omega_corrected :: "constants \<Rightarrow> int \<Rightarrow> real \<Rightarrow> ephemeris \<Rightarrow> real" where
  "omega_corrected cs week tow eph =
     (let omega_corr = OmegaDot eph * delta_t week tow eph
      in Omega_0 eph - (OMEGA_E_DOT cs * (tow + gpsweek_diff week eph)) + omega_corr)"

text \<open>
  Lines 96 to 224 for one satellite, given its eccentric anomaly. The numpy code is
  elementwise, so each column of the result depends on its own column of the inputs.
\<close>

definition sv_column :: "constants \<Rightarrow> int \<Rightarrow> real \<Rightarrow> ephemeris \<Rightarrow> real \<Rightarrow> error + sv_state" where
  "sv_column cs week tow eph ecc_anom =
     (let c_is = C_is eph; c_ic = C_ic eph; c_rs = C_rs eph; c_rc = C_rc eph;
          c_uc = C_uc eph; c_us = C_us eph;
          delta_n = deltaN eph;
          e = ecc eph;
          sqrt_sma = sqrtA eph;
          sma = sqrt_sma\<^sup>2;
          sqrt_mu_a' = sqrt_mu_a cs eph;
          dt = delta_t week tow eph;
          cos_e = cos ecc_anom;
          sin_e = sin ecc_anom;
          e_cos_e = 1 - e * cos_e
      in case arg_of_latitude eph ecc_anom of
           (phi, None) \<Rightarrow> Inl NameError
         | (phi, Some (cos_to_phi, sin_to_phi)) \<Rightarrow>
            (let omega' = omega_corrected cs week tow eph;
                 r_corr = c_rc * cos_to_phi + c_rs * sin_to_phi;
                 orb_radius = sma * e_cos_e + r_corr;
                 delta_e = (sqrt_mu_a' + delta_n) / e_cos_e;
                 dphi = sqrt (1 - e\<^sup>2) * delta_e / e_cos_e;
                 delta_r = (sma * e * delta_e * sin_e)
                            + 2 * (c_rs * cos_to_phi - c_rc * sin_to_phi) * dphi;
                 i_corr = c_ic * cos_to_phi + c_is * sin_to_phi + IDOT eph * dt;
                 incl = i_0 eph + i_corr;
                 delta_i = 2 * (c_is * cos_to_phi - c_ic * sin_to_phi) * dphi + IDOT eph;
                 x_plane = orb_radius * cos phi;
                 y_plane = orb_radius * sin phi;
                 delta_u = (1 + 2 * (c_us * cos_to_phi - c_uc * sin_to_phi)) * dphi;
                 dxp = delta_r * cos phi - orb_radius * sin phi * delta_u;
                 dyp = delta_r * sin phi + orb_radius * cos phi * delta_u;
                 cos_omega = cos omega';
                 sin_omega = sin omega';
                 cos_i = cos incl;
                 sin_i = sin incl;
                 omega_dot = OmegaDot eph - OMEGA_E_DOT cs
             in Inr \<lparr> sv_id = eph_sv_id eph,
                      times = tow,
                      x_sv_m = x_plane * cos_omega - y_plane * cos_i * sin_omega,
                      y_sv_m = x_plane * sin_omega + y_plane * cos_i * cos_omega,
                      z_sv_m = y_plane * sin_i,
                      vx_sv_mps = dxp * cos_omega
                                  - dyp * cos_i * sin_omega
                                  + y_plane * sin_omega * sin_i * delta_i
                                  - (x_plane * sin_omega + y_plane * cos_i * cos_omega) * omega_dot,
                      vy_sv_mps = dxp * sin_omega
                                  + dyp * cos_i * cos_omega
                                  - y_plane * sin_i * cos_omega * delta_i
                                  + (x_plane * cos_omega - (y_plane * cos_i * sin_omega)) * omega_dot,
                      vz_sv_mps = dyp * sin_i + y_plane * cos_i * delta_i \<rparr>))"

text \<open>
  The time argument \<open>gps_millis\<close> is a number or an array with one entry per satellite.
  Broadcasting against the \<open>n\<close> columns of the ephemeris stretches a number and an
  array of length one; any other length mismatch is rejected.
\<close>

datatype millis = Scalar real | Array "real list"

definition broadcast :: "millis \<Rightarrow> nat \<Rightarrow> error + real list" where
  "broadcast t n =
     (case t of
        Scalar x \<Rightarrow> Inr (replicate n x)
      | Array xs \<Rightarrow>
          if length xs = n then Inr xs
          else (case xs of [x] \<Rightarrow> Inr (replicate n x) | _ \<Rightarrow> Inl ValueError))"

text \<open>The first error of a list of results, or all the values.\<close>

fun collect :: "(error + 'a) list \<Rightarrow> error + 'a list" where
  "collect [] = Inr []"
| "collect (Inl err # rs) = Inl err"
| "collect (Inr v # rs) = (case collect rs of Inl err \<Rightarrow> Inl err | Inr vs \<Rightarrow> Inr (v # vs))"

text \<open>
  \<open>find_sv_states(gps_millis, ephem)\<close>. The converter \<open>gps_millis_to_tow\<close> is imported from
  \<open>time_conversions\<close> and is a parameter here. With \<open>ephem = None\<close> the first subscript
  \<open>ephem['C_is']\<close> raises \<open>TypeError\<close>.
\<close>

definition find_sv_states ::
  "constants \<Rightarrow> (real \<Rightarrow> int \<times> real) \<Rightarrow> millis \<Rightarrow> ephemeris list option
     \<Rightarrow> error + sv_state list" where
  "find_sv_states cs gps_millis_to_tow gps_millis ephem_opt =
     (case ephem_opt of
        None \<Rightarrow> Inl TypeError
      | Some ephem \<Rightarrow>
         (case broadcast gps_millis (length ephem) of
            Inl err \<Rightarrow> Inl err
          | Inr ms \<Rightarrow>
             (let gps_week = map (fst \<circ> gps_millis_to_tow) ms;
                  gps_tow = map (snd \<circ> gps_millis_to_tow) ms
              in case compute_eccentric_anomaly cs gps_week gps_tow ephem
                        default_tol default_max_iter of
                   Inl err \<Rightarrow> Inl err
                 | Inr ecc_anom \<Rightarrow>
                     collect (map2 (\<lambda>((w, t), eph) E. sv_column cs w t eph E)
                                (zip (zip gps_week gps_tow) ephem) ecc_anom))))"

subsection \<open>Objects: the store of \<open>NavData\<close> tables of satellite states\<close>

text \<open>
  A \<open>NavData\<close> is a mutable object that the caller and the callee share: row assignment
  \<open>sv_posvel['x_sv_m'] = ...\<close> changes the object in place. The store maps a reference
  (an index) to the table it holds; \<open>alloc\<close> is the creation of a new object.
  \<open>InvalidReference\<close> is the outcome for a reference that the store does not hold; no
  Python program reaches it.
\<close>

type_synonym navdata = "sv_state list"

type_synonym store = "navdata list"

definition lookup :: "store \<Rightarrow> nat \<Rightarrow> navdata option" where
  "lookup h r = (if r < length h then Some (h ! r) else None)"

definition alloc :: "store \<Rightarrow> navdata \<Rightarrow> nat \<times> store" where
  "alloc h v = (length h, h @ [v])"

definition assign :: "store \<Rightarrow> nat \<Rightarrow> navdata \<Rightarrow> store" where
  "assign h r v = h[r := v]"

subsection \<open>Ranges, signal transit and visibility\<close>

text \<open>
  \<open>_extract_pos_vel_arr\<close>: the position rows and the velocity rows, column by column.
  A table of \<^typ>\<open>sv_state\<close> has all six rows, so the lookups and both shape assertions
  of the source succeed.
\<close>

definition extract_pos_vel_arr ::
  "navdata \<Rightarrow> (real \<times> real \<times> real) list \<times> (real \<times> real \<times> real) list" where
  "extract_pos_vel_arr sv_posvel =
     (let sv_pos = map (\<lambda>s. (x_sv_m s, y_sv_m s, z_sv_m s)) sv_posvel;
          sv_vel = map (\<lambda>s. (vx_sv_mps s, vy_sv_mps s, vz_sv_mps s)) sv_posvel
      in (sv_pos, sv_vel))"

text \<open>
  \<open>np.reshape(rx_ecef, [3, 1])\<close>: the receiver position is given by its entries in
  order; the reshape raises \<open>ValueError\<close> unless there are exactly three.
\<close>

definition reshape_3_1 :: "real list \<Rightarrow> error + real \<times> real \<times> real" where
  "reshape_3_1 rx_ecef =
     (case rx_ecef of [a, b, c] \<Rightarrow> Inr (a, b, c) | _ \<Rightarrow> Inl ValueError)"

text \<open>
  \<open>_find_delxyz_range(sv_posvel, rx_ecef)\<close>. After the reshape the size is three, so
  the \<open>ValueError\<close> of line 365 is never raised. The container \<open>NavData\<close> (\<open>navdata.py\<close>,
  not among the files) returns the rows of a table with a single column as a vector:
  for one satellite \<open>sv_pos\<close> has shape \<open>(3,)\<close>, and \<open>sv_pos - np.tile(rx_ecef, (1, 1))\<close>
  broadcasts it against the 3\<times>1 receiver to a 3\<times>3 array, entry \<open>(i, j)\<close> being
  coordinate \<open>j\<close> of the satellite minus coordinate \<open>i\<close> of the receiver; \<open>true_range\<close>
  then has three entries. \<open>del_pos\<close> is the list of the columns of the array.
\<close>

definition find_delxyz_range ::
  "navdata \<Rightarrow> real list \<Rightarrow> error + (real \<times> real \<times> real) list \<times> real list" where
  "find_delxyz_range sv_posvel rx_ecef =
     (case reshape_3_1 rx_ecef of
        Inl err \<Rightarrow> Inl err
      | Inr (rx, ry, rz) \<Rightarrow>
         (let (sv_pos, sv_vel) = extract_pos_vel_arr sv_posvel;
              del_pos =
                (case sv_pos of
                   [(x, y, z)] \<Rightarrow>
                     [(x - rx, x - ry, x - rz), (y - rx, y - ry, y - rz), (z - rx, z - ry, z - rz)]
                 | _ \<Rightarrow> map (\<lambda>(x, y, z). (x - rx, y - ry, z - rz)) sv_pos);
              true_range = map (\<lambda>(dx, dy, dz). sqrt (dx\<^sup>2 + dy\<^sup>2 + dz\<^sup>2)) del_pos
          in Inr (del_pos, true_range)))"

text \<open>
  An elementwise operation of numpy on two vectors: equal lengths pair up, a vector of
  length one is stretched, any other pair of lengths raises \<open>ValueError\<close>.
\<close>

definition elementwise ::
  "(real \<Rightarrow> real \<Rightarrow> real) \<Rightarrow> real list \<Rightarrow> real list \<Rightarrow> error + real list" where
  "elementwise f xs ys =
     (if length xs = length ys then Inr (map2 f xs ys)
      else (case xs of
              [x] \<Rightarrow> Inr (map (f x) ys)
            | _ \<Rightarrow> (case ys of [y] \<Rightarrow> Inr (map (\<lambda>x. f x y) xs) | _ \<Rightarrow> Inl ValueError)))"

text \<open>
  Row assignment \<open>sv_posvel[row] = values\<close>: the table keeps its number of columns, so
  a vector of another length raises \<open>ValueError\<close> and the table is not changed.
\<close>

definition set_row ::
  "(sv_state \<Rightarrow> real \<Rightarrow> sv_state) \<Rightarrow> navdata \<Rightarrow> real list \<Rightarrow> error + navdata" where
  "set_row upd sv_posvel values =
     (if length values = length sv_posvel then Inr (map2 upd sv_posvel values)
      else Inl ValueError)"

text \<open>
  Lines 331 to 342 of \<open>_find_sv_location\<close>, on the object \<open>r\<close>: the range, the transit
  time, and the two row assignments that add the Earth-rotation terms to the object.
  The first assignment is in the store before the second is attempted.
\<close>

definition rotate_in_place ::
  "constants \<Rightarrow> store \<Rightarrow> nat \<Rightarrow> real list
     \<Rightarrow> error + store \<times> nat \<times> (real \<times> real \<times> real) list \<times> real list" where
  "rotate_in_place cs h r rx_ecef =
     (case lookup h r of
        None \<Rightarrow> Inl InvalidReference
      | Some sv_posvel \<Rightarrow>
         (case find_delxyz_range sv_posvel rx_ecef of
            Inl err \<Rightarrow> Inl err
          | Inr (del_pos, true_range) \<Rightarrow>
             (let t_corr = map (\<lambda>d. d / C cs) true_range
              in case elementwise (\<lambda>x t. OMEGA_E_DOT cs * x * t) (map x_sv_m sv_posvel) t_corr of
                   Inl err \<Rightarrow> Inl err
                 | Inr del_x \<Rightarrow>
                    (case elementwise (\<lambda>y t. OMEGA_E_DOT cs * y * t) (map y_sv_m sv_posvel) t_corr of
                       Inl err \<Rightarrow> Inl err
                     | Inr del_y \<Rightarrow>
                        (case elementwise (\<lambda>x d. x + d) (map x_sv_m sv_posvel) del_x of
                           Inl err \<Rightarrow> Inl err
                         | Inr new_x \<Rightarrow>
                            (case set_row (\<lambda>s v. s\<lparr>x_sv_m := v\<rparr>) sv_posvel new_x of
                               Inl err \<Rightarrow> Inl err
                             | Inr sv_posvel' \<Rightarrow>
                                (case elementwise (\<lambda>y d. y + d) (map y_sv_m sv_posvel') del_y of
                                   Inl err \<Rightarrow> Inl err
                                 | Inr new_y \<Rightarrow>
                                    (case set_row (\<lambda>s v. s\<lparr>y_sv_m := v\<rparr>) sv_posvel' new_y of
                                       Inl err \<Rightarrow> Inl err
                                     | Inr sv_posvel'' \<Rightarrow>
                                         Inr (assign h r sv_posvel'', r, del_pos, true_range)))))))))"

text \<open>
  \<open>_find_sv_location(gps_millis, rx_ecef, ephem=None, sv_posvel=None)\<close>. The argument
  \<open>sv_posvel\<close> is a reference to the caller's object, or \<open>None\<close>. The result is the
  store after the call, the reference returned, \<open>del_pos\<close> and \<open>true_range\<close>.
\<close>

definition find_sv_location ::
  "constants \<Rightarrow> (real \<Rightarrow> int \<times> real) \<Rightarrow> store \<Rightarrow> real \<Rightarrow> real list
     \<Rightarrow> ephemeris list option \<Rightarrow> nat option
     \<Rightarrow> error + store \<times> nat \<times> (real \<times> real \<times> real) list \<times> real list" where
  "find_sv_location cs gps_millis_to_tow h gps_millis rx_ecef ephem sv_posvel =
     (case reshape_3_1 rx_ecef of
        Inl err \<Rightarrow> Inl err
      | Inr rx \<Rightarrow>
         (case sv_posvel of
            None \<Rightarrow>
              (case ephem of
                 None \<Rightarrow> Inl AssertionError
               | Some eph \<Rightarrow>
                  (case find_sv_states cs gps_millis_to_tow
                          (Scalar (gps_millis - 1000 * T_TRANS cs)) ephem of
                     Inl err \<Rightarrow> Inl err
                   | Inr sv0 \<Rightarrow>
                      (case find_delxyz_range sv0 rx_ecef of
                         Inl err \<Rightarrow> Inl err
                       | Inr (del_pos, true_range) \<Rightarrow>
                          (let t_corr = map (\<lambda>d. d / C cs) true_range
                           in case find_sv_states cs gps_millis_to_tow
                                     (Array (map (\<lambda>t. gps_millis - 1000 * t) t_corr)) ephem of
                                Inl err \<Rightarrow> Inl err
                              | Inr sv1 \<Rightarrow>
                                  (let (r, h') = alloc h sv1
                                   in rotate_in_place cs h' r rx_ecef)))))
          | Some r \<Rightarrow> rotate_in_place cs h r rx_ecef))"

text \<open>
  \<open>_find_visible_svs(gps_millis, rx_ecef, ephem=None, sv_posvel=None, el_mask=5.)\<close>.
  \<open>ecef_to_el_az\<close> is imported from \<open>coordinates\<close> and is a parameter: it returns one
  pair (elevation, azimuth) per satellite, or raises. \<open>sv_posvel.copy()\<close> creates a new
  object. The last line selects the columns of \<open>ephem\<close> whose index is kept.
\<close>

definition find_visible_svs ::
  "constants \<Rightarrow> (real \<Rightarrow> int \<times> real)
     \<Rightarrow> (real \<times> real \<times> real \<Rightarrow> (real \<times> real \<times> real) list \<Rightarrow> error + (real \<times> real) list)
     \<Rightarrow> store \<Rightarrow> real \<Rightarrow> real list \<Rightarrow> ephemeris list option \<Rightarrow> nat option \<Rightarrow> real
     \<Rightarrow> error + store \<times> ephemeris list" where
  "find_visible_svs cs gps_millis_to_tow ecef_to_el_az h gps_millis rx_ecef ephem sv_posvel el_mask =
     (case (case sv_posvel of
              None \<Rightarrow>
                (case find_sv_states cs gps_millis_to_tow
                        (Scalar (gps_millis - 1000 * T_TRANS cs)) ephem of
                   Inl err \<Rightarrow> Inl err
                 | Inr sv \<Rightarrow> Inr (sv, snd (alloc h sv)))
            | Some r \<Rightarrow>
                (case ephem of
                   None \<Rightarrow> Inl AssertionError
                 | Some eph \<Rightarrow>
                    (case lookup h r of
                       None \<Rightarrow> Inl InvalidReference
                     | Some sv \<Rightarrow> Inr (sv, snd (alloc h sv))))) of
        Inl err \<Rightarrow> Inl err
      | Inr (approx_posvel, h') \<Rightarrow>
         (let (approx_pos, approx_vel) = extract_pos_vel_arr approx_posvel
          in case reshape_3_1 rx_ecef of
               Inl err \<Rightarrow> Inl err
             | Inr rx \<Rightarrow>
                (case ecef_to_el_az rx approx_pos of
                   Inl err \<Rightarrow> Inl err
                 | Inr approx_el_az \<Rightarrow>
                    (let keep_ind = map (\<lambda>(el, az). el > el_mask) approx_el_az;
                         cols = filter (\<lambda>i. keep_ind ! i) [0..<length keep_ind]
                     in case ephem of
                          None \<Rightarrow> Inl AttributeError
                        | Some eph \<Rightarrow>
                            if list_all (\<lambda>i. i < length eph) cols
                            then Inr (h', map (\<lambda>i. eph ! i) cols)
                            else Inl IndexError))))"

subsection \<open>\<open>svs_from_el_az\<close>\<close>

text \<open>\<open>np.deg2rad\<close>\<close>

definition deg2rad :: "real \<Rightarrow> real" where
  "deg2rad x = x * (pi / 180)"




section \<open>Dilution of precision (gnss\_lib\_py/utils/metrics.py)\<close>

text \<open>
  The module \<open>metrics\<close> is imported by \<open>tests/utils/test_metrics.py\<close> and is not among the
  source files; its functions are modelled from the specification (sections 4.4 and
  4.5) and from the calls of the tests. A double is a real number or the IEEE-754
  not-a-number value.
\<close>

datatype number = NaN | Num real

text \<open>One row of the input table: the epoch and the angles of one satellite, in degrees.\<close>

record sat_row =
  gps_millis :: int
  el_sv_deg :: real
  az_sv_deg :: real

text \<open>
  Modelled from the spec: \<open>calculate_enu_unit_vectors\<close> is missing. Section 4.4:
  \<open>east = cos(el)\<cdot>sin(az)\<close>, \<open>north = cos(el)\<cdot>cos(az)\<close>, \<open>up = sin(el)\<close>, angles converted to
  radians.
\<close>

definition calculate_enu_unit_vectors :: "sat_row list \<Rightarrow> real list list" where
  "calculate_enu_unit_vectors rows =
     map (\<lambda>r. (let el = deg2rad (el_sv_deg r); az = deg2rad (az_sv_deg r)
                in [cos el * sin az, cos el * cos az, sin el])) rows"

text \<open>
  Modelled from the spec: \<open>calculate_enut_matrix\<close> is missing. Section 4.4: the design
  matrix appends a constant column of ones, giving an N\<times>4 matrix.
\<close>

definition calculate_enut_matrix :: "sat_row list \<Rightarrow> real list list" where
  "calculate_enut_matrix rows = map (\<lambda>v. v @ [1]) (calculate_enu_unit_vectors rows)"

text \<open>The Gram matrix \<open>G\<^sup>t\<cdot>G\<close> of a matrix with four columns.\<close>

definition gram :: "real list list \<Rightarrow> real list list" where
  "gram G = map (\<lambda>i. map (\<lambda>j. sum_list (map (\<lambda>row. row ! i * row ! j) G)) [0..<4]) [0..<4]"

text \<open>The determinant by expansion along the first row, and the inverse by cofactors.\<close>

definition drop_nth :: "nat \<Rightarrow> 'a list \<Rightarrow> 'a list" where
  "drop_nth j xs = take j xs @ drop (Suc j) xs"

function det :: "real list list \<Rightarrow> real" where
  "det [] = 1"
| "det (r # rs) =
     sum_list (map (\<lambda>j. (- 1) ^ j * (r ! j) * det (map (drop_nth j) rs)) [0..<length r])"
  by pat_completeness auto
termination
  by (relation "measure length") auto

definition inverse_matrix :: "real list list \<Rightarrow> real list list" where
  "inverse_matrix A =
     map (\<lambda>i. map (\<lambda>j. (- 1) ^ (i + j) * det (map (drop_nth i) (drop_nth j A)) / det A)
                 [0..<length A]) [0..<length A]"

text \<open>The result of \<open>calculate_dop\<close>: the keys of the dictionary the tests read.\<close>

record dop =
  dop_matrix :: "number list list"
  GDOP :: number
  HDOP :: number
  VDOP :: number
  PDOP :: number
  TDOP :: number

definition nan_dop :: dop where
  "nan_dop = \<lparr> dop_matrix = replicate 4 (replicate 4 NaN),
               GDOP = NaN, HDOP = NaN, VDOP = NaN, PDOP = NaN, TDOP = NaN \<rparr>"

text \<open>
  Modelled from the spec: \<open>calculate_dop\<close> is missing. Section 4.5:
  \<open>dop_matrix = inverse(G\<^sup>t\<cdot>G)\<close>, indexed (East, North, Up, Time);
  \<open>HDOP = \<surd>(dop_ee + dop_nn)\<close>, \<open>VDOP = \<surd>dop_uu\<close>, \<open>PDOP = \<surd>(dop_ee + dop_nn + dop_uu)\<close>,
  \<open>GDOP = \<surd>(dop_ee + dop_nn + dop_uu + dop_tt)\<close>, \<open>TDOP = \<surd>dop_tt\<close>. With fewer than
  four satellites, or a singular \<open>G\<^sup>t\<cdot>G\<close>, every entry and every scalar is not-a-number,
  and nothing is raised: the function has no error outcome.
\<close>

definition calculate_dop :: "sat_row list \<Rightarrow> dop" where
  "calculate_dop rows =
     (let enut_matrix = calculate_enut_matrix rows;
          enut_gram_matrix = gram enut_matrix
      in if length rows < 4 \<or> det enut_gram_matrix = 0 then nan_dop
         else
           (let m = inverse_matrix enut_gram_matrix;
                dop_ee = m ! 0 ! 0; dop_nn = m ! 1 ! 1; dop_uu = m ! 2 ! 2; dop_tt = m ! 3 ! 3
            in \<lparr> dop_matrix = map (map Num) m,
                 GDOP = Num (sqrt (dop_ee + dop_nn + dop_uu + dop_tt)),
                 HDOP = Num (sqrt (dop_ee + dop_nn)),
                 VDOP = Num (sqrt dop_uu),
                 PDOP = Num (sqrt (dop_ee + dop_nn + dop_uu)),
                 TDOP = Num (sqrt dop_tt) \<rparr>))"

text \<open>
  The selection of \<open>get_dop\<close>: a dictionary from the names \<open>GDOP\<close>, \<open>HDOP\<close>, \<open>VDOP\<close>,
  \<open>PDOP\<close>, \<open>TDOP\<close>, \<open>dop_matrix\<close> to flags. Its default is that of section 4.5.
\<close>

type_synonym selection = "string \<rightharpoonup> bool"

definition default_which_dop :: selection where
  "default_which_dop =
     [''GDOP'' \<mapsto> False, ''HDOP'' \<mapsto> True, ''VDOP'' \<mapsto> True,
      ''PDOP'' \<mapsto> False, ''TDOP'' \<mapsto> False, ''dop_matrix'' \<mapsto> False]"

definition selected :: "selection \<Rightarrow> string \<Rightarrow> bool" where
  "selected which_dop k = (which_dop k = Some True)"

text \<open>
  One row of the result: the epoch and the requested fields with their labels. The ten
  independent entries of the symmetric matrix come in the fixed order
  ee, en, eu, et, nn, nu, nt, uu, ut, tt.
\<close>

definition dop_labels :: "(string \<times> nat \<times> nat) list" where
  "dop_labels =
     [(''dop_ee'', 0, 0), (''dop_en'', 0, 1), (''dop_eu'', 0, 2), (''dop_et'', 0, 3),
      (''dop_nn'', 1, 1), (''dop_nu'', 1, 2), (''dop_nt'', 1, 3),
      (''dop_uu'', 2, 2), (''dop_ut'', 2, 3), (''dop_tt'', 3, 3)]"

definition dop_fields :: "selection \<Rightarrow> dop \<Rightarrow> (string \<times> number) list" where
  "dop_fields which_dop d =
     (if selected which_dop ''GDOP'' then [(''GDOP'', GDOP d)] else []) @
     (if selected which_dop ''HDOP'' then [(''HDOP'', HDOP d)] else []) @
     (if selected which_dop ''VDOP'' then [(''VDOP'', VDOP d)] else []) @
     (if selected which_dop ''PDOP'' then [(''PDOP'', PDOP d)] else []) @
     (if selected which_dop ''TDOP'' then [(''TDOP'', TDOP d)] else []) @
     (if selected which_dop ''dop_matrix''
      then map (\<lambda>(label, i, j). (label, dop_matrix d ! i ! j)) dop_labels else [])"

text \<open>
  Modelled from the spec: the body of \<open>get_dop\<close> is missing. Section 4.5: one result row
  per unique epoch, rows ordered by ascending epoch, containing the epoch key and only
  the fields requested by the selection.
\<close>

definition get_dop_rows :: "sat_row list \<Rightarrow> selection \<Rightarrow> (int \<times> (string \<times> number) list) list" where
  "get_dop_rows navdata which_dop =
     map (\<lambda>t. (t, dop_fields which_dop
                     (calculate_dop (filter (\<lambda>r. gps_millis r = t) navdata))))
         (sort (remdups (map gps_millis navdata)))"

text \<open>
  The call of the tests, \<open>get_dop(navdata, **which_dop)\<close>, with the caller's dictionary
  an object of a store of dictionaries. Keyword unpacking builds a new dictionary from
  the entries of the caller's; the callee completes its own dictionary with the
  defaults. The result is the rows and the store after the call.
\<close>

definition call_get_dop ::
  "selection list \<Rightarrow> sat_row list \<Rightarrow> nat
     \<Rightarrow> error + (int \<times> (string \<times> number) list) list \<times> selection list" where
  "call_get_dop st navdata r =
     (if r < length st
      then (let kwargs = length st;
                st' = st @ [st ! r];
                st'' = st'[kwargs := default_which_dop ++ (st' ! kwargs)]
            in Inr (get_dop_rows navdata (st'' ! kwargs), st''))
      else Inl InvalidReference)"

subsection \<open>Concrete inputs\<close>

text \<open>
  The values of IS-GPS-200 for the four constants, for evaluating the model on concrete
  inputs. Every general statement below holds for all values of the constants.
\<close>

definition gps_consts :: constants where
  "gps_consts = \<lparr> MU_EARTH = 398600500000000, OMEGA_E_DOT = 72921151467 / 10 ^ 15,
                   C = 299792458, T_TRANS = 7 / 100 \<rparr>"

text \<open>A circular orbit in the equatorial plane, with reference time \<open>t_oe = 0\<close> of week 0.\<close>

definition circular_eph :: ephemeris where
  "circular_eph =
     \<lparr> eph_sv_id = 1, gps_week = 0, t_oe = 0, sqrtA = 5153,
       ecc = 0, M_0 = 0,
       deltaN = 0, omega = 0, Omega_0 = 0, OmegaDot = 0, i_0 = 0, IDOT = 0,
       C_is = 0, C_ic = 0, C_rs = 0, C_rc = 0, C_uc = 0, C_us = 0 \<rparr>"

text \<open>Eccentricity one half, mean anomaly at reference a quarter turn.\<close>

definition half_eph :: ephemeris where
  "half_eph = circular_eph \<lparr> ecc := 1 / 2, M_0 := pi / 2 \<rparr>"

text \<open>
  An ephemeris with eccentricity about 0.988, inside \<open>[0,1)\<close>, on which the
  Newton-Raphson iteration started at \<open>E = M\<close> moves away from the root: here
  \<open>e\<cdot>cos M = 32/33\<close> and \<open>e\<cdot>sin M = \<mp>2\<pi>/33\<close>, so every iterate is \<open>M\<close> plus a whole number
  of turns and each step multiplies the distance by \<open>-32\<close>. The sign \<open>sg\<close> is that of
  the mean anomaly.
\<close>

definition divergent_eph :: "int \<Rightarrow> ephemeris" where
  "divergent_eph sg =
     circular_eph \<lparr> ecc := 32 / 33 * sqrt (1 + (pi / 16)\<^sup>2),
                    M_0 := - (of_int sg * arctan (pi / 16)) \<rparr>"

text \<open>The number of turns between the \<open>n\<close>-th iterate and \<open>M\<close> on that ephemeris.\<close>

fun divergent_turns :: "int \<Rightarrow> nat \<Rightarrow> int" where
  "divergent_turns sg 0 = 0"
| "divergent_turns sg (Suc n) = - 32 * divergent_turns sg n - sg"

text \<open>
  A table with one satellite on the equator at GPS orbit radius, held by the caller, and
  a converter for times within week 0.
\<close>

definition caller_state :: sv_state where
  "caller_state = \<lparr> sv_id = 1, times = 0, x_sv_m = 26560000, y_sv_m = 0, z_sv_m = 0,
                      vx_sv_mps = 0, vy_sv_mps = 3874, vz_sv_mps = 0 \<rparr>"


definition week0_tow :: "real \<Rightarrow> int \<times> real" where
  "week0_tow ms = (0, ms / 1000)"

text \<open>The two fixtures of \<open>test_singularity_dop\<close>.\<close>

definition too_few_sat_scenario :: "sat_row list" where
  "too_few_sat_scenario =
     [\<lparr> gps_millis = 0, el_sv_deg = 20, az_sv_deg = 30 \<rparr>,
      \<lparr> gps_millis = 0, el_sv_deg = 30, az_sv_deg = 60 \<rparr>]"

definition singularity_sat_scenario :: "sat_row list" where
  "singularity_sat_scenario = replicate 5 \<lparr> gps_millis = 0, el_sv_deg = 30, az_sv_deg = 90 \<rparr>"

text \<open>The fixture \<open>simple_sat_scenario\<close> of the tests.\<close>

definition simple_sat_scenario :: "sat_row list" where
  "simple_sat_scenario =
     [\<lparr> gps_millis = 0, el_sv_deg = 0, az_sv_deg = 0 \<rparr>,
      \<lparr> gps_millis = 0, el_sv_deg = 0, az_sv_deg = 90 \<rparr>,
      \<lparr> gps_millis = 0, el_sv_deg = 45, az_sv_deg = 180 \<rparr>,
      \<lparr> gps_millis = 0, el_sv_deg = 45, az_sv_deg = 270 \<rparr>,
      \<lparr> gps_millis = 0, el_sv_deg = 90, az_sv_deg = 360 \<rparr>]"

section \<open>Verification\<close>

subsection \<open>The vectorised Newton-Raphson loop, satellite by satellite\<close>

lemma zip3_map:
  "zip Ms (zip es (map f (zip Ms (zip es Es)))) =
     map (\<lambda>(M, e, E). (M, e, f (M, e, E))) (zip Ms (zip es Es))"
proof (induction Ms arbitrary: es Es)
  case Nil
  then show ?case by simp
next
  case outer: (Cons M Ms)
  show ?case
  proof (cases es)
    case Nil
    then show ?thesis by simp
  next
    case es: (Cons e es')
    show ?thesis
    proof (cases Es)
      case Nil
      then show ?thesis by (simp add: es)
    next
      case (Cons E Es')
      then show ?thesis using outer.IH [of es' Es'] by (simp add: es)
    qed
  qed
qed

lemma neg_quot: "- ((a - b + c) / d) = (b - a - c) / (d::real)"
  by (cases "d = 0") (simp_all add: field_simps)

lemma newton_body_delta:
  "map2 (\<lambda>f d. - f / d)
      (map2 (\<lambda>m (e, E). m - E + e * sin E) Ms (zip es Es))
      (map2 (\<lambda>e E. e * cos E - 1) es Es) =
   map (\<lambda>(M, e, E). spec_newton_delta M e E) (zip Ms (zip es Es))"
proof (rule nth_equalityI)
  show "length (map2 (\<lambda>f d. - f / d)
      (map2 (\<lambda>m (e, E). m - E + e * sin E) Ms (zip es Es))
      (map2 (\<lambda>e E. e * cos E - 1) es Es)) =
    length (map (\<lambda>(M, e, E). spec_newton_delta M e E) (zip Ms (zip es Es)))"
    by simp
next
  fix i
  assume "i < length (map2 (\<lambda>f d. - f / d)
      (map2 (\<lambda>m (e, E). m - E + e * sin E) Ms (zip es Es))
      (map2 (\<lambda>e E. e * cos E - 1) es Es))"
  then have "i < length Ms" "i < length es" "i < length Es"
    by simp_all
  then show "map2 (\<lambda>f d. - f / d)
      (map2 (\<lambda>m (e, E). m - E + e * sin E) Ms (zip es Es))
      (map2 (\<lambda>e E. e * cos E - 1) es Es) ! i =
    map (\<lambda>(M, e, E). spec_newton_delta M e E) (zip Ms (zip es Es)) ! i"
    unfolding spec_newton_delta_def kepler_f_def kepler_f'_def
    by (simp add: neg_quot)
qed

lemma newton_body_anom:
  "map2 (\<lambda>E d. E + d) Es (map (\<lambda>(M, e, E). spec_newton_delta M e E) (zip Ms (zip es Es))) =
   map (\<lambda>(M, e, E). spec_newton_step M e E) (zip Ms (zip es Es))"
  by (rule nth_equalityI)
     (simp_all add: spec_newton_delta_def spec_newton_step_def)

lemma newton_loop_Suc:
  "newton_loop (Suc n) Ms es Es d =
     newton_loop n Ms es (map (\<lambda>(M, e, E). spec_newton_step M e E) (zip Ms (zip es Es)))
       (Some (map (\<lambda>(M, e, E). spec_newton_delta M e E) (zip Ms (zip es Es))))"
  by (simp only: newton_loop.simps Let_def newton_body_delta newton_body_anom)

lemma zip3_third:
  "length Es \<le> length Ms \<Longrightarrow> length Es \<le> length es \<Longrightarrow>
     map (\<lambda>(M, e, E). E) (zip Ms (zip es Es)) = Es"
proof (induction Es arbitrary: Ms es)
  case Nil
  then show ?case by simp
next
  case (Cons E Es')
  then obtain M Ms' e es' where "Ms = M # Ms'" "es = e # es'"
    by (cases Ms; cases es) auto
  with Cons show ?case by simp
qed

lemma newton_loop_fst:
  "length Es \<le> length Ms \<Longrightarrow> length Es \<le> length es \<Longrightarrow>
   fst (newton_loop n Ms es Es d) =
     map (\<lambda>(M, e, E). (spec_newton_step M e ^^ n) E) (zip Ms (zip es Es))"
proof (induction n arbitrary: Es d)
  case 0
  then show ?case by (simp add: zip3_third)
next
  case (Suc n)
  have "fst (newton_loop (Suc n) Ms es Es d) =
      map (\<lambda>(M, e, E). (spec_newton_step M e ^^ n) E)
        (zip Ms (zip es (map (\<lambda>(M, e, E). spec_newton_step M e E) (zip Ms (zip es Es)))))"
    unfolding newton_loop_Suc by (rule Suc.IH) simp_all
  also have "\<dots> = map (\<lambda>(M, e, E). (spec_newton_step M e ^^ Suc n) E) (zip Ms (zip es Es))"
    unfolding zip3_map by (simp add: case_prod_unfold funpow_swap1)
  finally show ?case .
qed

lemma newton_loop_snd:
  "length Es \<le> length Ms \<Longrightarrow> length Es \<le> length es \<Longrightarrow>
   snd (newton_loop (Suc n) Ms es Es d) =
     Some (map (\<lambda>(M, e, E). spec_newton_delta M e ((spec_newton_step M e ^^ n) E))
        (zip Ms (zip es Es)))"
proof (induction n arbitrary: Es d)
  case 0
  then show ?case by (simp add: newton_loop_Suc del: newton_loop.simps(2))
next
  case (Suc n)
  have "snd (newton_loop (Suc (Suc n)) Ms es Es d) =
      Some (map (\<lambda>(M, e, E). spec_newton_delta M e ((spec_newton_step M e ^^ n) E))
        (zip Ms (zip es (map (\<lambda>(M, e, E). spec_newton_step M e E) (zip Ms (zip es Es))))))"
    unfolding newton_loop_Suc [of "Suc n"] by (rule Suc.IH) simp_all
  also have "\<dots> = Some (map (\<lambda>(M, e, E). spec_newton_delta M e ((spec_newton_step M e ^^ Suc n) E))
        (zip Ms (zip es Es)))"
    unfolding zip3_map by (simp add: case_prod_unfold funpow_swap1)
  finally show ?case .
qed

subsection \<open>The solver in closed form\<close>

lemma kepler_triples:
  "zip (map2 (\<lambda>(w, t) eph. mean_anom cs w t eph) (zip weeks tows) ephem)
       (zip (map ecc ephem) (map2 (\<lambda>(w, t) eph. mean_anom cs w t eph) (zip weeks tows) ephem)) =
   map (\<lambda>((w, t), eph). (mean_anom cs w t eph, ecc eph, mean_anom cs w t eph))
       (zip (zip weeks tows) ephem)"
  by (rule nth_equalityI) (simp_all add: case_prod_unfold)

lemma compute_eccentric_anomaly_unfold:
  "compute_eccentric_anomaly cs weeks tows ephem tol max_iter =
     (if max_iter \<le> 0 then Inl NameError
      else if list_ex (\<lambda>x. x > tol)
                (map (last_correction cs (nat max_iter)) (zip (zip weeks tows) ephem))
           then Inl RuntimeWarning
      else Inr (map (kepler_iterate cs (nat max_iter)) (zip (zip weeks tows) ephem)))"
proof (cases "max_iter \<le> 0")
  case True
  then show ?thesis by (simp add: compute_eccentric_anomaly_def)
next
  case False
  then obtain n where n: "nat max_iter = Suc n"
    by (metis not_le zero_less_nat_eq gr0_implies_Suc)
  let ?Ms = "map2 (\<lambda>(w, t) eph. mean_anom cs w t eph) (zip weeks tows) ephem"
  let ?es = "map ecc ephem"
  have len: "length ?Ms \<le> length ?Ms" "length ?Ms \<le> length ?es"
    by simp_all
  have f: "fst (newton_loop (Suc n) ?Ms ?es ?Ms None) =
      map (kepler_iterate cs (Suc n)) (zip (zip weeks tows) ephem)"
    unfolding newton_loop_fst [OF len] kepler_triples
    by (simp add: kepler_iterate_def case_prod_unfold)
  have s: "snd (newton_loop (Suc n) ?Ms ?es ?Ms None) =
      Some (map (last_correction cs (Suc n)) (zip (zip weeks tows) ephem))"
    unfolding newton_loop_snd [OF len] kepler_triples
    by (simp add: last_correction_def kepler_iterate_def case_prod_unfold)
  obtain E d where Ed: "newton_loop (Suc n) ?Ms ?es ?Ms None = (E, d)"
    by (cases "newton_loop (Suc n) ?Ms ?es ?Ms None")
  from f s Ed have "E = map (kepler_iterate cs (Suc n)) (zip (zip weeks tows) ephem)"
    and "d = Some (map (last_correction cs (Suc n)) (zip (zip weeks tows) ephem))"
    by simp_all
  with Ed False n show ?thesis
    by (simp add: compute_eccentric_anomaly_def Let_def del: newton_loop.simps)
qed

subsection \<open>The divergent ephemeris\<close>

lemma shift_trig:
  "sin (M + (2 * pi) * of_int j) = sin M" "cos (M + (2 * pi) * of_int j) = cos M"
  by (simp_all add: sin_add cos_add)

lemma shift_step:
  assumes c: "e * cos M = 32 / 33" and s: "e * sin M = - (2 * pi / 33) * of_int sg"
  shows "spec_newton_step M e (M + (2 * pi) * of_int j) = M + (2 * pi) * of_int (- 32 * j - sg)"
  unfolding spec_newton_step_def kepler_f_def kepler_f'_def shift_trig c s
  by (simp add: field_simps)

lemma shift_iterate:
  assumes c: "e * cos M = 32 / 33" and s: "e * sin M = - (2 * pi / 33) * of_int sg"
  shows "(spec_newton_step M e ^^ n) M = M + (2 * pi) * of_int (divergent_turns sg n)"
proof (induction n)
  case 0
  show ?case by simp
next
  case (Suc n)
  show ?case
    using shift_step [OF c s, of "divergent_turns sg n"] Suc.IH by simp
qed

lemma shift_delta:
  assumes c: "e * cos M = 32 / 33" and s: "e * sin M = - (2 * pi / 33) * of_int sg"
  shows "spec_newton_delta M e (M + (2 * pi) * of_int j) = - (2 * pi) * of_int (33 * j + sg)"
  unfolding spec_newton_delta_def kepler_f_def kepler_f'_def shift_trig c s
  by (simp add: field_simps)

lemma divergent_mean_anom:
  "mean_anom gps_consts 0 0 (divergent_eph sg) = - (of_int sg * arctan (pi / 16))"
  by (simp add: mean_anom_def delta_t_def gpsweek_diff_def divergent_eph_def circular_eph_def)

lemma sqrt_pos: "sqrt (1 + (pi / 16)\<^sup>2) \<noteq> 0"
  by (metis add_pos_nonneg less_numeral_extra(1) real_sqrt_eq_zero_cancel_iff order_less_irrefl zero_le_power2)

lemma divergent_cos:
  "sg = 1 \<or> sg = - 1 \<Longrightarrow>
     ecc (divergent_eph sg) * cos (- (of_int sg * arctan (pi / 16))) = 32 / 33"
  using sqrt_pos by (auto simp add: divergent_eph_def cos_arctan)

lemma divergent_sin:
  "sg = 1 \<or> sg = - 1 \<Longrightarrow>
     ecc (divergent_eph sg) * sin (- (of_int sg * arctan (pi / 16))) = - (2 * pi / 33) * of_int sg"
  using sqrt_pos by (auto simp add: divergent_eph_def sin_arctan)

lemma divergent_turns_9: "divergent_turns sg 9 = - 1066193093601 * sg"
  by (simp add: eval_nat_numeral)

lemma divergent_turns_10: "divergent_turns sg 10 = 34118178995231 * sg"
  by (simp add: eval_nat_numeral)

lemma divergent_last_correction:
  assumes sg: "sg = 1 \<or> sg = - 1"
  shows "last_correction gps_consts 10 ((0, 0), divergent_eph sg) = 2 * pi * 35184372088832 * of_int sg"
proof -
  let ?M = "- (of_int sg * arctan (pi / 16))"
  let ?e = "ecc (divergent_eph sg)"
  have "last_correction gps_consts 10 ((0, 0), divergent_eph sg) =
      spec_newton_delta ?M ?e ((spec_newton_step ?M ?e ^^ 9) ?M)"
    by (simp add: last_correction_def kepler_iterate_def divergent_mean_anom)
  also have "\<dots> = - (2 * pi) * of_int (33 * divergent_turns sg 9 + sg)"
    unfolding shift_iterate [OF divergent_cos [OF sg] divergent_sin [OF sg]]
    by (rule shift_delta [OF divergent_cos [OF sg] divergent_sin [OF sg]])
  also have "\<dots> = 2 * pi * 35184372088832 * of_int sg"
    unfolding divergent_turns_9 by simp
  finally show ?thesis .
qed

lemma divergent_iterate:
  assumes sg: "sg = 1 \<or> sg = - 1"
  shows "kepler_iterate gps_consts 10 ((0, 0), divergent_eph sg) =
     - (of_int sg * arctan (pi / 16)) + 2 * pi * 34118178995231 * of_int sg"
  unfolding kepler_iterate_def
  by (simp add: divergent_mean_anom shift_iterate [OF divergent_cos [OF sg] divergent_sin [OF sg]]
      divergent_turns_10)

lemma divergent_valid:
  "0 \<le> ecc (divergent_eph sg) \<and> ecc (divergent_eph sg) < 1 \<and> 0 < sqrtA (divergent_eph sg)"
proof -
  have "pi\<^sup>2 < 4\<^sup>2"
    using pi_less_4 pi_ge_zero by (metis abs_of_nonneg power2_less_imp_less power_strict_mono pos2 zero_less_numeral order_less_imp_le)
  then have "1 + (pi / 16)\<^sup>2 < (33 / 32)\<^sup>2"
    by (simp add: power2_eq_square field_simps)
  then have "sqrt (1 + (pi / 16)\<^sup>2) < 33 / 32"
    by (metis real_sqrt_less_iff real_sqrt_abs abs_of_nonneg zero_le_divide_iff zero_le_numeral)
  then show ?thesis
    by (simp add: divergent_eph_def circular_eph_def)
qed

lemma two_pi_big: "1 / 100000 < 2 * pi * 35184372088832"
  using pi_ge_two by simp

subsection \<open>Claim C1: what happens when the last correction exceeds the tolerance\<close>

text \<open>
  Claim C1, as amended. The claim says that when the magnitude of the last correction
  exceeds the tolerance for some satellite the solver still returns the last iterate and
  only signals a warning. The code executes \<open>raise RuntimeWarning(...)\<close>: whenever the
  pass runs at least once and the last correction of some satellite is greater than
  \<open>tol\<close>, the call ends with the exception \<open>RuntimeWarning\<close> and returns no iterate.
\<close>

theorem eccentric_anomaly_raises_on_positive_correction:
  "0 < max_iter \<Longrightarrow>
   list_ex (\<lambda>c. last_correction cs (nat max_iter) c > tol) (zip (zip weeks tows) ephem) \<Longrightarrow>
   compute_eccentric_anomaly cs weeks tows ephem tol max_iter = Inl RuntimeWarning"
  by (simp add: compute_eccentric_anomaly_unfold list_ex_iff)

text \<open>Witness: eccentricity one half, \<open>M = \<pi>/2\<close>, one iteration: the correction is one half.\<close>

theorem eccentric_anomaly_raises_witness:
  "(0::int) < 1 \<and>
   list_ex (\<lambda>c. last_correction gps_consts (nat 1) c > default_tol)
     (zip (zip [0] [0]) [half_eph]) \<and>
   compute_eccentric_anomaly gps_consts [0] [0] [half_eph] default_tol 1 = Inl RuntimeWarning"
proof -
  have c: "last_correction gps_consts (Suc 0) ((0, 0), half_eph) = 1 / 2"
    by (simp add: last_correction_def kepler_iterate_def mean_anom_def delta_t_def
        gpsweek_diff_def half_eph_def circular_eph_def spec_newton_delta_def kepler_f_def
        kepler_f'_def)
  have h: "list_ex (\<lambda>c. last_correction gps_consts (nat 1) c > default_tol)
     (zip (zip [0] [0]) [half_eph])"
    by (simp add: c default_tol_def)
  show ?thesis
    using h eccentric_anomaly_raises_on_positive_correction
      [where max_iter = 1 and cs = gps_consts and tol = default_tol and weeks = "[0]"
        and tows = "[0]" and ephem = "[half_eph]"]
    by simp
qed

text \<open>
  Counterexample to claim C1 as stated: a single satellite whose eccentricity lies in
  \<open>[0,1)\<close>, the default tolerance and the default ten iterations. The magnitude of the
  last correction exceeds the tolerance, and the call raises instead of returning.
\<close>

theorem eccentric_anomaly_not_returned_counterexample:
  "0 \<le> ecc (divergent_eph 1) \<and> ecc (divergent_eph 1) < 1 \<and>
   default_tol < \<bar>last_correction gps_consts (nat default_max_iter) ((0, 0), divergent_eph 1)\<bar> \<and>
   compute_eccentric_anomaly gps_consts [0] [0] [divergent_eph 1] default_tol default_max_iter
     = Inl RuntimeWarning"
proof -
  have lc: "last_correction gps_consts (nat default_max_iter) ((0, 0), divergent_eph 1)
      = 2 * pi * 35184372088832"
    using divergent_last_correction [of 1] by (simp add: default_max_iter_def)
  have "compute_eccentric_anomaly gps_consts [0] [0] [divergent_eph 1] default_tol default_max_iter
     = Inl RuntimeWarning"
    unfolding compute_eccentric_anomaly_unfold
    using two_pi_big by (simp add: lc default_tol_def) (simp add: default_max_iter_def)
  moreover have "default_tol < \<bar>last_correction gps_consts (nat default_max_iter) ((0, 0), divergent_eph 1)\<bar>"
    unfolding lc using two_pi_big by (simp add: default_tol_def)
  ultimately show ?thesis
    using divergent_valid [of 1] by simp
qed

text \<open>
  The test of the source is \<open>delta_ecc_anom > tol\<close>, on the signed correction. On the
  mirrored ephemeris the last correction is large and negative: the iterate is returned
  and nothing is raised.
\<close>

lemma negative_correction_unsignalled:
  "default_tol < \<bar>last_correction gps_consts (nat default_max_iter) ((0, 0), divergent_eph (- 1))\<bar> \<and>
   compute_eccentric_anomaly gps_consts [0] [0] [divergent_eph (- 1)] default_tol default_max_iter
     = Inr [arctan (pi / 16) - 2 * pi * 34118178995231]"
proof -
  have lc: "last_correction gps_consts (nat default_max_iter) ((0, 0), divergent_eph (- 1))
      = - (2 * pi * 35184372088832)"
    using divergent_last_correction [of "- 1"] by (simp add: default_max_iter_def)
  have it: "kepler_iterate gps_consts (nat default_max_iter) ((0, 0), divergent_eph (- 1))
      = arctan (pi / 16) - 2 * pi * 34118178995231"
    using divergent_iterate [of "- 1"] by (simp add: default_max_iter_def)
  have neg: "\<not> 1 / 100000 < - (2 * pi * 35184372088832)"
    using pi_ge_two by simp
  have "compute_eccentric_anomaly gps_consts [0] [0] [divergent_eph (- 1)] default_tol default_max_iter
     = Inr [arctan (pi / 16) - 2 * pi * 34118178995231]"
    unfolding compute_eccentric_anomaly_unfold
    using neg by (simp add: lc it default_tol_def) (simp add: default_max_iter_def)
  moreover have "default_tol < \<bar>last_correction gps_consts (nat default_max_iter) ((0, 0), divergent_eph (- 1))\<bar>"
    unfolding lc using two_pi_big by (simp add: default_tol_def)
  ultimately show ?thesis by simp
qed

subsection \<open>Claim C6: a fixed number of Newton-Raphson iterations\<close>

text \<open>
  Claim C6. The eccentric anomaly of every satellite is the result of exactly
  \<open>max_iter\<close> (default 10) iterations of \<open>E \<leftarrow> E \<minus> f(E)/f'(E)\<close>, with
  \<open>f(E) = M \<minus> E + e\<cdot>sin(E)\<close> and \<open>f'(E) = e\<cdot>cos(E) \<minus> 1\<close>, started from \<open>E = M\<close>, the corrected
  mean anomaly (\<open>kepler_iterate\<close>). The count never depends on convergence: the only
  test comes after the pass, on the correction of the last step (\<open>last_correction\<close>),
  and decides between raising and returning these very values. This is the whole
  behaviour of the solver, for every input.
\<close>

theorem eccentric_anomaly_fixed_newton_pass:
  "compute_eccentric_anomaly cs weeks tows ephem tol max_iter =
     (if max_iter \<le> 0 then Inl NameError
      else if list_ex (\<lambda>x. x > tol)
                (map (last_correction cs (nat max_iter)) (zip (zip weeks tows) ephem))
           then Inl RuntimeWarning
      else Inr (map (kepler_iterate cs (nat max_iter)) (zip (zip weeks tows) ephem)))"
  by (rule compute_eccentric_anomaly_unfold)

lemma circular_iterate: "(spec_newton_step 0 0 ^^ n) 0 = 0"
  by (induction n) (simp_all add: spec_newton_step_def kepler_f_def kepler_f'_def)

lemma circular_ecc: "ecc circular_eph = 0"
  by (simp add: circular_eph_def)

lemma circular_mean_anom: "mean_anom gps_consts 0 0 circular_eph = 0"
  by (simp add: mean_anom_def delta_t_def gpsweek_diff_def circular_eph_def)

lemma half_mean_anom: "mean_anom gps_consts 0 0 half_eph = pi / 2"
  by (simp add: mean_anom_def delta_t_def gpsweek_diff_def half_eph_def circular_eph_def)

lemma half_ecc: "ecc half_eph = 1 / 2"
  by (simp add: half_eph_def)

text \<open>
  Witness: with eccentricity one half and \<open>M = \<pi>/2\<close>, one iteration under tolerance 1
  returns \<open>\<pi>/2 + 1/2\<close>, which is not the root; on the mirrored divergent ephemeris the
  default ten iterations return the tenth iterate, \<open>34 118 178 995 231\<close> turns away from
  \<open>M\<close>.
\<close>

theorem eccentric_anomaly_fixed_newton_pass_witness:
  "compute_eccentric_anomaly gps_consts [0] [0] [half_eph] 1 1 = Inr [pi / 2 + 1 / 2] \<and>
   compute_eccentric_anomaly gps_consts [0] [0] [divergent_eph (- 1)] default_tol default_max_iter
     = Inr [arctan (pi / 16) - 2 * pi * 34118178995231]"
proof -
  have h1: "last_correction gps_consts (Suc 0) ((0, 0), half_eph) = 1 / 2"
    by (simp add: last_correction_def kepler_iterate_def half_mean_anom half_ecc
        spec_newton_delta_def kepler_f_def kepler_f'_def)
  have h2: "kepler_iterate gps_consts (Suc 0) ((0, 0), half_eph) = pi / 2 + 1 / 2"
    by (simp add: kepler_iterate_def half_mean_anom half_ecc spec_newton_step_def kepler_f_def
        kepler_f'_def)
  have a: "compute_eccentric_anomaly gps_consts [0] [0] [half_eph] 1 1 = Inr [pi / 2 + 1 / 2]"
    by (simp add: eccentric_anomaly_fixed_newton_pass
        [where cs = gps_consts and weeks = "[0]" and tows = "[0]" and ephem = "[half_eph]"
          and tol = 1 and max_iter = 1] h1 h2)
  have lc: "last_correction gps_consts (nat default_max_iter) ((0, 0), divergent_eph (- 1))
      = - (2 * pi * 35184372088832)"
    using divergent_last_correction [of "- 1"] by (simp add: default_max_iter_def)
  have it: "kepler_iterate gps_consts (nat default_max_iter) ((0, 0), divergent_eph (- 1))
      = arctan (pi / 16) - 2 * pi * 34118178995231"
    using divergent_iterate [of "- 1"] by (simp add: default_max_iter_def)
  have neg: "\<not> 1 / 100000 < - (2 * pi * 35184372088832)"
    using pi_ge_two by simp
  have b: "compute_eccentric_anomaly gps_consts [0] [0] [divergent_eph (- 1)] default_tol
      default_max_iter = Inr [arctan (pi / 16) - 2 * pi * 34118178995231]"
    unfolding eccentric_anomaly_fixed_newton_pass
      [where cs = gps_consts and weeks = "[0]" and tows = "[0]"
        and ephem = "[divergent_eph (- 1)]" and tol = default_tol and max_iter = default_max_iter]
    using neg by (simp add: lc it default_tol_def) (simp add: default_max_iter_def)
  from a b show ?thesis ..
qed

subsection \<open>Claim C9: the true anomaly\<close>

lemma arctan2_scale:
  assumes k: "0 < k"
  shows "arctan2 (y / k) (x / k) = arctan2 y x"
proof -
  have q: "y / k / (x / k) = y / x"
    using k by simp
  have sx: "0 < x / k \<longleftrightarrow> 0 < x" "x / k < 0 \<longleftrightarrow> x < 0"
    using k by (simp_all add: zero_less_divide_iff divide_less_0_iff)
  have sy: "0 < y / k \<longleftrightarrow> 0 < y" "y / k < 0 \<longleftrightarrow> y < 0" "0 \<le> y / k \<longleftrightarrow> 0 \<le> y"
    using k by (simp_all add: zero_less_divide_iff divide_less_0_iff zero_le_divide_iff)
  show ?thesis
    unfolding arctan2_def q sx sy ..
qed

lemma e_cos_e_pos:
  fixes e E :: real
  assumes "0 \<le> e" "e < 1"
  shows "0 < 1 - e * cos E"
proof -
  have "e * cos E \<le> e * 1"
    using assms(1) mult_left_mono [of "cos E" 1 e] by simp
  with assms(2) show ?thesis by simp
qed

text \<open>
  Claim C9. For every eccentricity \<open>e\<close> in \<open>[0,1)\<close> and every eccentric anomaly \<open>E\<close>, the
  true anomaly computed by lines 135 to 142 equals
  \<open>atan2(\<surd>(1\<minus>e\<^sup>2)\<cdot>sin E, cos E \<minus> e)\<close>: the source divides both arguments by
  \<open>1 \<minus> e\<cdot>cos E\<close>, which is positive.
\<close>

theorem true_anomaly_formula:
  "0 \<le> e \<Longrightarrow> e < 1 \<Longrightarrow>
     nu_rad e E = arctan2 (sqrt (1 - e\<^sup>2) * sin E) (cos E - e)"
proof -
  assume e: "0 \<le> e" "e < 1"
  have "nu_rad e E =
      arctan2 (sqrt (1 - e\<^sup>2) * sin E / (1 - e * cos E)) ((cos E - e) / (1 - e * cos E))"
    by (simp add: nu_rad_def Let_def)
  also have "\<dots> = arctan2 (sqrt (1 - e\<^sup>2) * sin E) (cos E - e)"
    by (rule arctan2_scale [OF e_cos_e_pos [OF e]])
  finally show ?thesis .
qed

text \<open>Witness: eccentricity one half at perigee.\<close>

theorem true_anomaly_formula_witness:
  "(0::real) \<le> 1 / 2 \<and> (1 / 2 :: real) < 1 \<and> nu_rad (1 / 2) 0 = 0"
  using true_anomaly_formula [of "1 / 2" 0] by (simp add: arctan2_def)

subsection \<open>Claim C7: the argument of latitude\<close>

lemma phi_loop_Suc:
  "phi_loop (Suc n) phi_0 c_uc c_us phi trig =
     phi_loop n phi_0 c_uc c_us (spec_phi_step phi_0 c_uc c_us phi)
       (Some (cos (2 * phi), sin (2 * phi)))"
  by (simp add: Let_def spec_phi_step_def add.assoc)

lemma phi_loop_fst:
  "fst (phi_loop n phi_0 c_uc c_us phi trig) = (spec_phi_step phi_0 c_uc c_us ^^ n) phi"
proof (induction n arbitrary: phi trig)
  case 0
  show ?case by simp
next
  case (Suc n)
  show ?case
    unfolding phi_loop_Suc Suc.IH by (simp add: funpow_swap1)
qed

lemma phi_loop_snd:
  "snd (phi_loop (Suc n) phi_0 c_uc c_us phi trig) =
     Some (cos (2 * (spec_phi_step phi_0 c_uc c_us ^^ n) phi),
           sin (2 * (spec_phi_step phi_0 c_uc c_us ^^ n) phi))"
proof (induction n arbitrary: phi trig)
  case 0
  show ?case unfolding phi_loop_Suc by simp
next
  case (Suc n)
  show ?case
    unfolding phi_loop_Suc [of "Suc n"] Suc.IH by (simp add: funpow_swap1)
qed

text \<open>
  Claim C7. For every input, the argument of latitude is the result of exactly five
  iterations of \<open>phi := phi_0 + C_uc\<cdot>cos(2\<cdot>phi_prev) + C_us\<cdot>sin(2\<cdot>phi_prev)\<close> started at
  \<open>phi_0\<close>, the true anomaly plus the argument of perigee; nothing in the loop tests
  convergence or leaves early.
\<close>

theorem argument_of_latitude_five_iterations:
  "fst (arg_of_latitude eph ecc_anom) =
     (spec_phi_step (nu_rad (ecc eph) ecc_anom + omega eph) (C_uc eph) (C_us eph) ^^ 5)
       (nu_rad (ecc eph) ecc_anom + omega eph)"
  by (simp add: arg_of_latitude_def Let_def phi_loop_fst del: phi_loop.simps)

text \<open>
  The pair \<open>(cos_to_phi, sin_to_phi)\<close> read after the loop is that of the fifth pass,
  taken at the fourth iterate: it is always bound.
\<close>

lemma arg_of_latitude_trig:
  "snd (arg_of_latitude eph ecc_anom) =
     Some (cos (2 * (spec_phi_step (nu_rad (ecc eph) ecc_anom + omega eph) (C_uc eph) (C_us eph) ^^ 4)
                  (nu_rad (ecc eph) ecc_anom + omega eph)),
           sin (2 * (spec_phi_step (nu_rad (ecc eph) ecc_anom + omega eph) (C_uc eph) (C_us eph) ^^ 4)
                  (nu_rad (ecc eph) ecc_anom + omega eph)))"
proof -
  have "(5::nat) = Suc 4" by simp
  then show ?thesis
    unfolding arg_of_latitude_def Let_def by (simp only: phi_loop_snd)
qed

subsection \<open>Claim C5: the longitude of the ascending node\<close>

text \<open>
  Claim C5, as amended. The claim multiplies Earth's rotation rate by the elapsed time
  since the ephemeris reference. The code multiplies it by the time since the start of
  the GPS week, \<open>gps_tow + 604800\<cdot>(week mod 1024 \<minus> ephem week mod 1024)\<close>, which is the
  elapsed time plus \<open>t_oe\<close>; only the node's own rate \<open>OmegaDot\<close> is multiplied by the
  elapsed time \<open>gps_tow \<minus> t_oe + 604800\<cdot>(week mod 1024 \<minus> ephem week mod 1024)\<close>.
\<close>

theorem ascending_node_longitude:
  "omega_corrected cs week tow eph =
     Omega_0 eph
     - OMEGA_E_DOT cs * (tow + 604800 * real_of_int (week mod 1024 - gps_week eph mod 1024))
     + OmegaDot eph * delta_t week tow eph
   \<and> omega_corrected cs week tow eph =
     Omega_0 eph - OMEGA_E_DOT cs * (delta_t week tow eph + t_oe eph)
     + OmegaDot eph * delta_t week tow eph
   \<and> delta_t week tow eph =
     tow - t_oe eph + 604800 * real_of_int (week mod 1024 - gps_week eph mod 1024)"
  by (simp add: omega_corrected_def delta_t_def gpsweek_diff_def)

text \<open>
  Counterexample to claim C5 as stated: reference time \<open>t_oe = 7200\<close> s, query at
  \<open>gps_tow = 7300\<close> s of the same week. The formula of the claim differs from the code
  by \<open>OMEGA_E_DOT \<cdot> t_oe\<close>.
\<close>

theorem ascending_node_longitude_counterexample:
  "omega_corrected gps_consts 0 7300 (circular_eph \<lparr> t_oe := 7200 \<rparr>) \<noteq>
     Omega_0 (circular_eph \<lparr> t_oe := 7200 \<rparr>)
     - OMEGA_E_DOT gps_consts * delta_t 0 7300 (circular_eph \<lparr> t_oe := 7200 \<rparr>)
     + OmegaDot (circular_eph \<lparr> t_oe := 7200 \<rparr>) * delta_t 0 7300 (circular_eph \<lparr> t_oe := 7200 \<rparr>)"
  by (simp add: omega_corrected_def delta_t_def gpsweek_diff_def circular_eph_def gps_consts_def)

subsection \<open>Claim C10: satellites from elevation and azimuth\<close>






subsection \<open>Claim C3: the caller's satellite states\<close>



text \<open>
  With a single satellite the call raises \<open>ValueError\<close> on either path: the range has
  three entries, so the row assignment of line 339, or the second propagation of line
  330, is given a vector of the wrong length. The caller's table is then unchanged.
\<close>

lemma find_sv_location_single_satellite:
  "find_sv_location cs f [[s]] t [rx, ry, rz] ephem (Some 0) = Inl ValueError"
  by (simp add: find_sv_location_def rotate_in_place_def reshape_3_1_def lookup_def
      find_delxyz_range_def extract_pos_vel_arr_def elementwise_def set_row_def Let_def)


lemma collect_length: "collect rs = Inr vs \<Longrightarrow> length vs = length rs"
proof (induction rs arbitrary: vs)
  case Nil
  then show ?case by simp
next
  case (Cons r rs)
  then show ?case
    by (cases r) (auto split: sum.splits)
qed

lemma broadcast_length: "broadcast t n = Inr ms \<Longrightarrow> length ms = n"
  by (auto simp add: broadcast_def split: millis.splits if_splits list.splits)

lemma find_sv_states_length:
  assumes "find_sv_states cs f t (Some ephem) = Inr sv"
  shows "length sv = length ephem"
proof -
  from assms obtain ms where ms: "broadcast t (length ephem) = Inr ms"
    by (auto simp add: find_sv_states_def split: sum.splits)
  let ?w = "map (fst \<circ> f) ms" and ?t = "map (snd \<circ> f) ms"
  from assms ms obtain E where
    E: "compute_eccentric_anomaly cs ?w ?t ephem default_tol default_max_iter = Inr E"
    and c: "collect (map2 (\<lambda>((w, t), eph) E. sv_column cs w t eph E)
                (zip (zip ?w ?t) ephem) E) = Inr sv"
    by (auto simp add: find_sv_states_def Let_def split: sum.splits)
  from E have "length E = length ephem"
    using broadcast_length [OF ms]
    by (auto simp add: compute_eccentric_anomaly_unfold split: if_splits)
  with collect_length [OF c] broadcast_length [OF ms] show ?thesis
    by simp
qed

lemma find_sv_location_single_ephemeris:
  "\<exists>err. find_sv_location cs f h t [rx, ry, rz] (Some [eph]) None = Inl err"
proof (cases "find_sv_states cs f (Scalar (t - 1000 * T_TRANS cs)) (Some [eph])")
  case (Inl err)
  then show ?thesis
    by (simp add: find_sv_location_def reshape_3_1_def)
next
  case (Inr sv0)
  then have "length sv0 = 1"
    using find_sv_states_length by fastforce
  then obtain s where s: "sv0 = [s]"
    by (cases sv0) auto
  have "find_sv_location cs f h t [rx, ry, rz] (Some [eph]) None = Inl ValueError"
    using Inr
    by (simp add: s find_sv_location_def reshape_3_1_def find_delxyz_range_def
        extract_pos_vel_arr_def Let_def find_sv_states_def broadcast_def)
  then show ?thesis ..
qed

text \<open>
  The sibling \<open>_find_visible_svs\<close> works on \<open>sv_posvel.copy()\<close>: every object the
  caller holds is the same after the call.
\<close>

lemma find_visible_svs_keeps_caller_states:
  assumes "find_visible_svs cs f g h t rx ephem sv_posvel m = Inr (h', eph)"
    and "r < length h"
  shows "lookup h' r = lookup h r"
proof -
  from assms(1) obtain sv where "h' = h @ [sv]"
    by (auto simp add: find_visible_svs_def alloc_def Let_def
        split: option.splits sum.splits prod.splits if_splits)
  with assms(2) show ?thesis
    by (simp add: lookup_def nth_append)
qed

subsection \<open>Claim C4: the preconditions of the visibility filter\<close>

text \<open>With states but no ephemeris the assertion of line 282 fails.\<close>

lemma find_visible_svs_needs_ephem:
  "find_visible_svs cs f g h t rx None (Some r) m = Inl AssertionError"
  by (simp add: find_visible_svs_def)

text \<open>
  Claim C4. A call of the visibility filter with neither ephemeris nor satellite states
  fails (the first subscript of \<open>ephem\<close> in \<open>find_sv_states\<close> raises \<open>TypeError\<close>), and a
  call whose receiver position does not have exactly three components fails as well
  (at the latest, \<open>np.reshape\<close> raises \<open>ValueError\<close>).
\<close>

theorem find_visible_svs_preconditions:
  "find_visible_svs cs gps_millis_to_tow ecef_to_el_az h t rx_ecef None None el_mask
     = Inl TypeError \<and>
   (length rx_ecef \<noteq> 3 \<longrightarrow>
      (\<exists>err. find_visible_svs cs gps_millis_to_tow ecef_to_el_az h t rx_ecef
                ephem sv_posvel el_mask = Inl err))"
proof (intro conjI impI)
  show "find_visible_svs cs gps_millis_to_tow ecef_to_el_az h t rx_ecef None None el_mask
     = Inl TypeError"
    by (simp add: find_visible_svs_def find_sv_states_def)
next
  assume "length rx_ecef \<noteq> 3"
  then have "reshape_3_1 rx_ecef = Inl ValueError"
    by (auto simp add: reshape_3_1_def split: list.splits)
  then show "\<exists>err. find_visible_svs cs gps_millis_to_tow ecef_to_el_az h t rx_ecef
                ephem sv_posvel el_mask = Inl err"
    by (auto simp add: find_visible_svs_def Let_def split: option.splits sum.splits prod.splits)
qed

text \<open>Witness: a receiver position with two components.\<close>

theorem find_visible_svs_preconditions_witness:
  "find_visible_svs gps_consts week0_tow (\<lambda>rx pos. Inr (map (\<lambda>p. (90, 0)) pos))
       [[caller_state]] 0 [6378137, 0] None None 5 = Inl TypeError \<and>
   length [6378137, 0 :: real] \<noteq> 3 \<and>
   find_visible_svs gps_consts week0_tow (\<lambda>rx pos. Inr (map (\<lambda>p. (90, 0)) pos))
       [[caller_state]] 0 [6378137, 0] (Some [circular_eph]) (Some 0) 5 = Inl ValueError"
proof -
  have v: "find_visible_svs gps_consts week0_tow (\<lambda>rx pos. Inr (map (\<lambda>p. (90, 0)) pos))
       [[caller_state]] 0 [6378137, 0] (Some [circular_eph]) (Some 0) 5 = Inl ValueError"
    by (simp add: find_visible_svs_def lookup_def alloc_def extract_pos_vel_arr_def
        reshape_3_1_def)
  show ?thesis
    using v find_visible_svs_preconditions
      [where cs = gps_consts and gps_millis_to_tow = week0_tow
        and ecef_to_el_az = "\<lambda>rx pos. Inr (map (\<lambda>p. (90, 0)) pos)"
        and h = "[[caller_state]]" and t = 0 and rx_ecef = "[6378137, 0]"
        and ephem = "Some [circular_eph]" and sv_posvel = "Some 0" and el_mask = 5]
    by simp
qed

subsection \<open>Claim C2: singular geometry\<close>

lemma upt4: "[0..<4] = [0, 1, 2, 3]"
  by (simp add: eval_nat_numeral)

lemma det_3:
  "det [[a, b, c], [d, e, f], [g, h, i]] =
     a * (e * i - f * h) - b * (d * i - f * g) + c * (d * h - e * g)"
  by (simp add: drop_nth_def upt_rec_numeral eval_nat_numeral)

lemma det_4:
  "det [[a0, a1, a2, a3], [b0, b1, b2, b3], [c0, c1, c2, c3], [d0, d1, d2, d3]] =
     a0 * det [[b1, b2, b3], [c1, c2, c3], [d1, d2, d3]]
     - a1 * det [[b0, b2, b3], [c0, c2, c3], [d0, d2, d3]]
     + a2 * det [[b0, b1, b3], [c0, c1, c3], [d0, d1, d3]]
     - a3 * det [[b0, b1, b2], [c0, c1, c2], [d0, d1, d2]]"
  apply (subst det.simps(2))
  apply (simp add: drop_nth_def eval_nat_numeral del: det.simps)
  done

lemma det_rank_one:
  "det [[k * (a * a), k * (a * b), k * (a * c), k * (a * d)],
        [k * (b * a), k * (b * b), k * (b * c), k * (b * d)],
        [k * (c * a), k * (c * b), k * (c * c), k * (c * d)],
        [k * (d * a), k * (d * b), k * (d * c), k * (d * d)]] = 0"
  unfolding det_4 det_3 by (simp add: algebra_simps)


lemma gram_explicit:
  "gram G = (let s = (\<lambda>i j. sum_list (map (\<lambda>row. row ! i * row ! j) G)) in
     [[s 0 0, s 0 1, s 0 2, s 0 3], [s 1 0, s 1 1, s 1 2, s 1 3],
      [s 2 0, s 2 1, s 2 2, s 2 3], [s 3 0, s 3 1, s 3 2, s 3 3]])"
  by (simp add: gram_def upt4 Let_def)

lemma det_gram_none: "det (gram []) = 0"
  unfolding gram_explicit Let_def by (simp add: det_4 det_3 del: det.simps)

lemma det_gram_one: "det (gram [[a1, b1, c1, d1]]) = 0"
  unfolding gram_explicit Let_def by (simp add: det_4 det_3 del: det.simps)

lemma det_gram_two: "det (gram [[a1, b1, c1, d1], [a2, b2, c2, d2]]) = 0"
  unfolding gram_explicit Let_def
  apply (simp add: det_4 det_3 del: det.simps)
  apply algebra
  done

lemma det_gram_three:
  "det (gram [[a1, b1, c1, d1], [a2, b2, c2, d2], [a3, b3, c3, d3]]) = 0"
  unfolding gram_explicit Let_def
  apply (simp add: det_4 det_3 del: det.simps)
  apply algebra
  done

text \<open>With fewer than four satellites the Gram matrix is singular.\<close>

lemma short_list_cases:
  assumes "length xs < 4"
  obtains "xs = []" | a where "xs = [a]" | a b where "xs = [a, b]"
    | a b c where "xs = [a, b, c]"
proof (cases xs)
  case Nil
  then show ?thesis using that by simp
next
  case 1: (Cons a ys)
  show ?thesis
  proof (cases ys)
    case Nil
    then show ?thesis using that 1 by simp
  next
    case 2: (Cons b zs)
    show ?thesis
    proof (cases zs)
      case Nil
      then show ?thesis using that 1 2 by simp
    next
      case 3: (Cons c ws)
      with assms 1 2 have "ws = []" by simp
      then show ?thesis using that 1 2 3 by simp
    qed
  qed
qed

lemma too_few_singular:
  assumes "length rows < 4"
  shows "det (gram (calculate_enut_matrix rows)) = 0"
  using assms
  by (rule short_list_cases)
     (simp_all add: calculate_enut_matrix_def calculate_enu_unit_vectors_def Let_def
        det_gram_none det_gram_one det_gram_two det_gram_three del: det.simps)

text \<open>With all satellites at one elevation and azimuth the Gram matrix is singular.\<close>

lemma identical_matrix:
  assumes "list_all (\<lambda>r. el_sv_deg r = el \<and> az_sv_deg r = az) rows"
  shows "calculate_enut_matrix rows =
     replicate (length rows)
       [cos (deg2rad el) * sin (deg2rad az), cos (deg2rad el) * cos (deg2rad az),
        sin (deg2rad el), 1]"
  using assms
  by (induction rows)
     (simp_all add: calculate_enut_matrix_def calculate_enu_unit_vectors_def Let_def)

lemma gram_replicate:
  "gram (replicate n [a, b, c, d]) =
     [[real n * (a * a), real n * (a * b), real n * (a * c), real n * (a * d)],
      [real n * (b * a), real n * (b * b), real n * (b * c), real n * (b * d)],
      [real n * (c * a), real n * (c * b), real n * (c * c), real n * (c * d)],
      [real n * (d * a), real n * (d * b), real n * (d * c), real n * (d * d)]]"
  unfolding gram_explicit Let_def by (simp add: sum_list_replicate)

lemma identical_singular:
  assumes "list_all (\<lambda>r. el_sv_deg r = el \<and> az_sv_deg r = az) rows"
  shows "det (gram (calculate_enut_matrix rows)) = 0"
  unfolding identical_matrix [OF assms] gram_replicate by (rule det_rank_one)

lemma calculate_dop_singular:
  "length rows < 4 \<or> det (gram (calculate_enut_matrix rows)) = 0 \<Longrightarrow> calculate_dop rows = nan_dop"
  by (simp add: calculate_dop_def Let_def del: det.simps)

text \<open>
  Claim C2. For every satellite set of one epoch with fewer than four satellites, or
  whose Gram matrix \<open>G\<^sup>t\<cdot>G\<close> is singular, for example with all satellites at the same
  elevation and azimuth, every entry of the 4\<times>4 DOP matrix and each of GDOP, HDOP,
  VDOP, PDOP and TDOP is not-a-number. The computation has no error outcome.
\<close>

theorem dop_nan_on_singular_geometry:
  "length rows < 4 \<or> det (gram (calculate_enut_matrix rows)) = 0
     \<or> list_all (\<lambda>r. el_sv_deg r = el \<and> az_sv_deg r = az) rows \<Longrightarrow>
   dop_matrix (calculate_dop rows) = replicate 4 (replicate 4 NaN) \<and>
   GDOP (calculate_dop rows) = NaN \<and> HDOP (calculate_dop rows) = NaN \<and>
   VDOP (calculate_dop rows) = NaN \<and> PDOP (calculate_dop rows) = NaN \<and>
   TDOP (calculate_dop rows) = NaN"
proof -
  assume "length rows < 4 \<or> det (gram (calculate_enut_matrix rows)) = 0
     \<or> list_all (\<lambda>r. el_sv_deg r = el \<and> az_sv_deg r = az) rows"
  then have "det (gram (calculate_enut_matrix rows)) = 0"
    using too_few_singular identical_singular by blast
  then have "calculate_dop rows = nan_dop"
    using calculate_dop_singular by blast
  then show ?thesis
    by (simp add: nan_dop_def)
qed

text \<open>Witness: the two fixtures of \<open>test_singularity_dop\<close>.\<close>

theorem dop_nan_on_singular_geometry_witness:
  "length too_few_sat_scenario < 4 \<and>
   calculate_dop too_few_sat_scenario = nan_dop \<and>
   list_all (\<lambda>r. el_sv_deg r = 30 \<and> az_sv_deg r = 90) singularity_sat_scenario \<and>
   \<not> length singularity_sat_scenario < 4 \<and>
   calculate_dop singularity_sat_scenario = nan_dop"
proof -
  have a: "length too_few_sat_scenario < 4"
    by (simp add: too_few_sat_scenario_def)
  have b: "list_all (\<lambda>r. el_sv_deg r = 30 \<and> az_sv_deg r = 90) singularity_sat_scenario"
    by (simp add: singularity_sat_scenario_def list_all_iff)
  have c: "\<not> length singularity_sat_scenario < 4"
    by (simp add: singularity_sat_scenario_def)
  have eq: "d = nan_dop" if "dop_matrix d = replicate 4 (replicate 4 NaN)"
      "GDOP d = NaN" "HDOP d = NaN" "VDOP d = NaN" "PDOP d = NaN" "TDOP d = NaN" for d :: dop
    using that by (cases d) (simp add: nan_dop_def)
  have "calculate_dop too_few_sat_scenario = nan_dop"
    using dop_nan_on_singular_geometry [of too_few_sat_scenario 0 0] a by (intro eq) simp_all
  moreover have "calculate_dop singularity_sat_scenario = nan_dop"
    using dop_nan_on_singular_geometry [of singularity_sat_scenario 30 90] b by (intro eq) simp_all
  ultimately show ?thesis
    using a b c by simp
qed

subsection \<open>Claim C8: the selection of \<open>get_dop\<close>\<close>

text \<open>
  Claim C8. For every selection, the call \<open>get_dop(navdata, **which_dop)\<close> returns, and the
  caller's dictionary, like every other dictionary the caller holds, is the same
  after the call as before.
\<close>

theorem get_dop_keeps_selection:
  "r < length st \<Longrightarrow>
     (\<exists>rows st'. call_get_dop st navdata r = Inr (rows, st') \<and> st' ! r = st ! r
        \<and> take (length st) st' = st)"
  by (simp add: call_get_dop_def Let_def nth_append)

text \<open>Witness: the selection \<open>{TDOP: True}\<close>.\<close>

theorem get_dop_keeps_selection_witness:
  "(0::nat) < length [[''TDOP'' \<mapsto> True]] \<and>
   (\<exists>rows st'. call_get_dop [[''TDOP'' \<mapsto> True]] too_few_sat_scenario 0 = Inr (rows, st')
       \<and> st' ! 0 = [''TDOP'' \<mapsto> True])"
  using get_dop_keeps_selection [of 0 "[[''TDOP'' \<mapsto> True]]" too_few_sat_scenario]
  by auto

subsection \<open>The model on the inputs of the tests\<close>

text \<open>
  Orbit propagation of the circular equatorial orbit at its reference time: the
  satellite is on the x axis at the orbit radius \<open>5153\<^sup>2\<close> m and moves along y.
\<close>

lemma circular_ecc_anom:
  "compute_eccentric_anomaly gps_consts [0] [0] [circular_eph] default_tol default_max_iter
     = Inr [0]"
proof -
  have pos: "\<not> default_max_iter \<le> 0"
    by (simp add: default_max_iter_def)
  have lc: "last_correction gps_consts (nat default_max_iter) ((0, 0), circular_eph) = 0"
    by (simp add: last_correction_def kepler_iterate_def circular_mean_anom circular_iterate
        circular_ecc spec_newton_delta_def kepler_f_def kepler_f'_def)
  have it: "kepler_iterate gps_consts (nat default_max_iter) ((0, 0), circular_eph) = 0"
    by (simp add: kepler_iterate_def circular_mean_anom circular_iterate circular_ecc)
  show ?thesis
    unfolding compute_eccentric_anomaly_unfold
    by (simp add: pos lc it default_tol_def)
qed

lemma circular_phi: "(spec_phi_step 0 0 0 ^^ n) 0 = 0"
  by (induction n) (simp_all add: spec_phi_step_def)

lemma circular_arg_of_latitude: "arg_of_latitude circular_eph 0 = (0, Some (1, 0))"
proof -
  have nu: "nu_rad (ecc circular_eph) 0 = 0"
    by (simp add: circular_ecc nu_rad_def arctan2_def)
  have c: "C_uc circular_eph = 0" "C_us circular_eph = 0" "omega circular_eph = 0"
    by (simp_all add: circular_eph_def)
  have "fst (arg_of_latitude circular_eph 0) = 0"
    unfolding arg_of_latitude_def Let_def nu c by (simp add: phi_loop_fst circular_phi del: phi_loop.simps)
  moreover have "snd (arg_of_latitude circular_eph 0) = Some (1, 0)"
    unfolding arg_of_latitude_trig nu c by (simp add: circular_phi)
  ultimately show ?thesis
    by (metis prod.collapse)
qed

lemma circular_column:
  "sv_column gps_consts 0 0 circular_eph 0 =
     Inr \<lparr> sv_id = 1, times = 0, x_sv_m = 26553409, y_sv_m = 0, z_sv_m = 0,
            vx_sv_mps = 0,
            vy_sv_mps = 26553409 * sqrt_mu_a gps_consts circular_eph
                        + 26553409 * (- (72921151467 / 10 ^ 15)),
            vz_sv_mps = 0 \<rparr>"
proof -
  have f: "C_is circular_eph = 0" "C_ic circular_eph = 0" "C_rs circular_eph = 0"
    "C_rc circular_eph = 0" "C_uc circular_eph = 0" "C_us circular_eph = 0"
    "deltaN circular_eph = 0" "sqrtA circular_eph = 5153" "IDOT circular_eph = 0"
    "i_0 circular_eph = 0" "OmegaDot circular_eph = 0" "eph_sv_id circular_eph = 1"
    by (simp_all add: circular_eph_def)
  have o: "omega_corrected gps_consts 0 0 circular_eph = 0"
    by (simp add: omega_corrected_def delta_t_def gpsweek_diff_def circular_eph_def)
  have d: "delta_t 0 0 circular_eph = 0"
    by (simp add: delta_t_def gpsweek_diff_def circular_eph_def)
  have w: "OMEGA_E_DOT gps_consts = 72921151467 / 10 ^ 15"
    by (simp add: gps_consts_def)
  show ?thesis
    unfolding sv_column_def circular_arg_of_latitude Let_def f o d w circular_ecc
    by simp
qed

lemma circular_orbit_state:
  "find_sv_states gps_consts week0_tow (Scalar 0) (Some [circular_eph]) =
     Inr [\<lparr> sv_id = 1, times = 0, x_sv_m = 26553409, y_sv_m = 0, z_sv_m = 0,
            vx_sv_mps = 0,
            vy_sv_mps = 26553409 * sqrt_mu_a gps_consts circular_eph
                        + 26553409 * (- (72921151467 / 10 ^ 15)),
            vz_sv_mps = 0 \<rparr>]"
  by (simp add: find_sv_states_def broadcast_def week0_tow_def circular_ecc_anom
      circular_column)

text \<open>
  The model of \<open>calculate_dop\<close> and \<open>get_dop\<close> gives the values that \<open>test_simple_dop\<close>
  and \<open>test_simple_get_dop_default\<close> expect on \<open>simple_sat_scenario\<close>.
\<close>

lemma deg_values:
  "deg2rad 0 = 0" "deg2rad 90 = pi / 2" "deg2rad 180 = pi" "deg2rad 270 = 3 * pi / 2"
  "deg2rad 360 = 2 * pi" "deg2rad 45 = pi / 4"
  by (simp_all add: deg2rad_def)

lemma trig_270: "sin (3 * pi / 2) = - 1" "cos (3 * pi / 2) = 0"
  using sin_3over2_pi cos_3over2_pi by simp_all

lemma simple_enu:
  "calculate_enu_unit_vectors simple_sat_scenario =
     [[0, 1, 0], [1, 0, 0], [0, - (sqrt 2 / 2), sqrt 2 / 2], [- (sqrt 2 / 2), 0, sqrt 2 / 2],
      [0, 0, 1]]"
  by (simp add: calculate_enu_unit_vectors_def simple_sat_scenario_def Let_def deg_values
      trig_270 sin_45 cos_45)

lemma simple_gram:
  "gram (calculate_enut_matrix simple_sat_scenario) =
     [[3 / 2, 0, - (1 / 2), 1 - sqrt 2 / 2],
      [0, 3 / 2, - (1 / 2), 1 - sqrt 2 / 2],
      [- (1 / 2), - (1 / 2), 2, 1 + sqrt 2],
      [1 - sqrt 2 / 2, 1 - sqrt 2 / 2, 1 + sqrt 2, 5]]"
  unfolding gram_explicit Let_def calculate_enut_matrix_def simple_enu
  by (simp add: field_simps)


lemma sqrt2_sq: "sqrt 2 * sqrt 2 = 2" "sqrt 2 * (sqrt 2 * x) = 2 * x"
  by simp_all

lemma simple_det: "det (gram (calculate_enut_matrix simple_sat_scenario)) = 3"
  unfolding simple_gram det_4 det_3
  by (simp add: algebra_simps sqrt2_sq add_divide_distrib diff_divide_distrib)

lemma simple_inverse:
  "inverse_matrix (gram (calculate_enut_matrix simple_sat_scenario)) =
     [[25 / 12 - sqrt 2 / 2, 17 / 12 - sqrt 2 / 2, 5 / 4 + sqrt 2 / 4, - (5 / 4) + sqrt 2 / 4],
      [17 / 12 - sqrt 2 / 2, 25 / 12 - sqrt 2 / 2, 5 / 4 + sqrt 2 / 4, - (5 / 4) + sqrt 2 / 4],
      [5 / 4 + sqrt 2 / 4, 5 / 4 + sqrt 2 / 4, 9 / 4 + sqrt 2, - (5 / 4) - sqrt 2 / 2],
      [- (5 / 4) + sqrt 2 / 4, - (5 / 4) + sqrt 2 / 4, - (5 / 4) - sqrt 2 / 2, 5 / 4]]"
  unfolding inverse_matrix_def simple_det
  unfolding simple_gram
  by (simp add: upt4 drop_nth_def det_3 algebra_simps sqrt2_sq add_divide_distrib
      diff_divide_distrib del: det.simps)


lemma simple_dop:
  "calculate_dop simple_sat_scenario =
     \<lparr> dop_matrix = map (map Num)
         [[25 / 12 - sqrt 2 / 2, 17 / 12 - sqrt 2 / 2, 5 / 4 + sqrt 2 / 4, - (5 / 4) + sqrt 2 / 4],
          [17 / 12 - sqrt 2 / 2, 25 / 12 - sqrt 2 / 2, 5 / 4 + sqrt 2 / 4, - (5 / 4) + sqrt 2 / 4],
          [5 / 4 + sqrt 2 / 4, 5 / 4 + sqrt 2 / 4, 9 / 4 + sqrt 2, - (5 / 4) - sqrt 2 / 2],
          [- (5 / 4) + sqrt 2 / 4, - (5 / 4) + sqrt 2 / 4, - (5 / 4) - sqrt 2 / 2, 5 / 4]],
       GDOP = Num (sqrt (23 / 3)),
       HDOP = Num (sqrt (25 / 6 - sqrt 2)),
       VDOP = Num (sqrt (9 / 4 + sqrt 2)),
       PDOP = Num (sqrt (77 / 12)),
       TDOP = Num (sqrt (5 / 4)) \<rparr>"
proof -
  have n: "\<not> (length simple_sat_scenario < 4
      \<or> det (gram (calculate_enut_matrix simple_sat_scenario)) = 0)"
    unfolding simple_det by (simp add: simple_sat_scenario_def)
  have a: "25 / 12 - sqrt 2 / 2 + (25 / 12 - sqrt 2 / 2) = 25 / 6 - sqrt 2"
    by simp
  have b: "25 / 6 - sqrt 2 + (9 / 4 + sqrt 2) = 77 / 12"
    by simp
  show ?thesis
    unfolding calculate_dop_def Let_def if_not_P [OF n] simple_inverse
    by (simp add: a b)
qed


lemma simple_get_dop_default:
  "call_get_dop [Map.empty] simple_sat_scenario 0 =
     Inr ([(0, [(''HDOP'', Num (sqrt (25 / 6 - sqrt 2))), (''VDOP'', Num (sqrt (9 / 4 + sqrt 2)))])],
          [Map.empty, default_which_dop])"
proof -
  have f: "filter (\<lambda>r. gps_millis r = 0) simple_sat_scenario = simple_sat_scenario"
    by (simp add: simple_sat_scenario_def)
  have e: "sort (remdups (map gps_millis simple_sat_scenario)) = [0]"
    by (simp add: simple_sat_scenario_def)
  have d: "dop_fields default_which_dop (calculate_dop simple_sat_scenario) =
      [(''HDOP'', Num (sqrt (25 / 6 - sqrt 2))), (''VDOP'', Num (sqrt (9 / 4 + sqrt 2)))]"
    unfolding simple_dop by (simp add: dop_fields_def selected_def default_which_dop_def)
  show ?thesis
    by (simp add: call_get_dop_def Let_def get_dop_rows_def e f d)
qed

end
